theory Spec2Isabelle
  imports Main
begin

section \<open>Entity layer (app/models)\<close>

text \<open>
  The service keeps branches (sucursales), warehouses (almacenes) and two link tables in
  a relational store. Each table is a list of rows in storage order. Column names follow
  the SQLAlchemy models; where two tables share a column name the field carries a short
  table prefix (\<open>s_\<close>, \<open>a_\<close>, \<open>u_\<close>, \<open>sa_\<close>, \<open>us_\<close>). Integers are Python's
  unbounded ints, a timestamp is an integer instant.
\<close>

type_synonym datetime = int

record Sucursal =
  id_sucursal :: int
  s_nombre :: string
  direccion :: string
  telefono :: "string option"
  s_estado :: bool
  s_fecha_creacion :: datetime
  s_empresas_id_empresa :: int

record Almacen =
  id_almacen :: int
  a_nombre :: string
  descripcion :: "string option"
  es_principal :: bool
  a_estado :: bool
  a_fecha_creacion :: datetime
  a_empresas_id_empresa :: int

record SucursalAlmacen =
  sa_sucursales_id_sucursal :: int
  sa_almacenes_id_almacen :: int

record UsuarioSucursal =
  us_usuarios_id_usuario :: int
  us_sucursales_id_sucursal :: int

text \<open>
  The table \<open>usuarios\<close> belongs to another service; the handlers reach it through raw
  SQL only, which names these columns.
\<close>

record Usuario =
  id_usuario :: int
  u_nombre :: string
  apellido :: string
  email :: string
  es_dueno :: bool
  u_estado :: bool
  u_fecha_creacion :: datetime
  u_empresas_id_empresa :: int

record db =
  sucursales :: "Sucursal list"
  almacenes :: "Almacen list"
  sucursales_almacenes :: "SucursalAlmacen list"
  usuarios :: "Usuario list"
  usuarios_sucursales :: "UsuarioSucursal list"

section \<open>Validation layer (app/schemas)\<close>

text \<open>
  A request body is the value the schema yields after validation; its fields carry the
  initials of the schema as a prefix (\<open>sc_\<close> for \<open>SucursalCreate\<close>, and so on), which
  also keeps them apart from the handlers' parameters. In the update schemas
  every field is optional and the handler asks which fields were set, so a field is
  \<open>None\<close> when the body does not carry it, \<open>Some None\<close> when the body carries an
  explicit null, and \<open>Some (Some v)\<close> when it carries the value \<open>v\<close>.
\<close>

record SucursalCreate =
  sc_nombre :: string
  sc_direccion :: string
  sc_telefono :: "string option"
  sc_estado :: "bool option"
  sc_almacen_id :: "int option"

record SucursalUpdate =
  su_nombre :: "string option option"
  su_direccion :: "string option option"
  su_telefono :: "string option option"
  su_estado :: "bool option option"

record SucursalResponse =
  sr_nombre :: string
  sr_direccion :: string
  sr_telefono :: "string option"
  sr_estado :: "bool option"
  sr_id_sucursal :: int
  sr_fecha_creacion :: datetime

record AlmacenCreate =
  ac_nombre :: string
  ac_descripcion :: "string option"
  ac_es_principal :: bool
  ac_estado :: "bool option"
  ac_sucursal_id :: int

record AlmacenUpdate =
  au_nombre :: "string option option"
  au_descripcion :: "string option option"
  au_es_principal :: "bool option option"
  au_estado :: "bool option option"

record AlmacenResponse =
  ar_nombre :: string
  ar_descripcion :: "string option"
  ar_es_principal :: bool
  ar_estado :: "bool option"
  ar_id_almacen :: int
  ar_fecha_creacion :: datetime

record SucursalAlmacenCreate =
  sac_sucursal_id :: int

record SucursalAlmacenResponse =
  sar_sucursales_id_sucursal :: int
  sar_almacenes_id_almacen :: int

record UsuarioSucursalCreate =
  usc_usuario_id :: int

record UsuarioEnSucursalResponse =
  ur_id_usuario :: int
  ur_nombre :: string
  ur_apellido :: string
  ur_email :: string
  ur_es_dueno :: bool
  ur_estado :: bool
  ur_fecha_creacion :: datetime

record UsuarioSucursalResponse =
  usr_usuarios_id_usuario :: int
  usr_sucursales_id_sucursal :: int

text \<open>The authenticated caller, as the handlers read it: \<open>current_user.empresa.id_empresa\<close>.\<close>

record Empresa =
  id_empresa :: int

record CurrentUser =
  empresa :: Empresa

section \<open>Errors and datastore primitives\<close>

text \<open>
  A handler either returns its response or raises. \<open>HTTPException\<close> carries the status
  code and the detail; the other three are exceptions the handlers do not catch.
\<close>

datatype error =
    HTTPException nat string
  | IntegrityError
  | MultipleResultsFound
  | AttributeError

abbreviation HTTP_400_BAD_REQUEST :: nat where "HTTP_400_BAD_REQUEST \<equiv> 400"
abbreviation HTTP_404_NOT_FOUND :: nat where "HTTP_404_NOT_FOUND \<equiv> 404"
abbreviation HTTP_422_UNPROCESSABLE_ENTITY :: nat where "HTTP_422_UNPROCESSABLE_ENTITY \<equiv> 422"

text \<open>The empty body of a 204 response (the handler returns \<open>None\<close>).\<close>

datatype no_content = NoContent

text \<open>\<open>Result.scalar_one_or_none()\<close>: no row, the one row, or an exception on several.\<close>

definition scalar_one_or_none :: "'a list \<Rightarrow> error + 'a option" where
  "scalar_one_or_none rows =
     (case rows of
        [] \<Rightarrow> Inr None
      | [r] \<Rightarrow> Inr (Some r)
      | _ \<Rightarrow> Inl MultipleResultsFound)"

text \<open>\<open>Result.fetchone()\<close>: the first row, if any.\<close>

definition fetchone :: "'a list \<Rightarrow> 'a option" where
  "fetchone rows = (case rows of [] \<Rightarrow> None | r # _ \<Rightarrow> Some r)"

text \<open>
  \<open>select(Sucursal).where(id_sucursal == :id, empresas_id_empresa == :empresa)\<close> and its
  warehouse twin: the lookup every handler starts with.
\<close>

definition q_sucursal :: "int \<Rightarrow> int \<Rightarrow> db \<Rightarrow> Sucursal list" where
  "q_sucursal sid eid d =
     filter (\<lambda>s. id_sucursal s = sid \<and> s_empresas_id_empresa s = eid) (sucursales d)"

definition q_almacen :: "int \<Rightarrow> int \<Rightarrow> db \<Rightarrow> Almacen list" where
  "q_almacen aid eid d =
     filter (\<lambda>a. id_almacen a = aid \<and> a_empresas_id_empresa a = eid) (almacenes d)"

text \<open>
  The raw SQL of the handlers. The three listings join a link table with the entity
  table, keep the link rows of the given branch (or warehouse) and the entity rows of the
  given company, and order by the entity's id. \<open>sql_user\<close> selects \<open>id_usuario\<close> of the
  users with the given id and company.
\<close>

definition sql_almacenes_de_sucursal :: "int \<Rightarrow> int \<Rightarrow> db \<Rightarrow> Almacen list" where
  "sql_almacenes_de_sucursal sucursal_id id_emp d =
     sort_key id_almacen
       (concat (map
         (\<lambda>sa. filter (\<lambda>a. id_almacen a = sa_almacenes_id_almacen sa
                            \<and> a_empresas_id_empresa a = id_emp)
                   (almacenes d))
         (filter (\<lambda>sa. sa_sucursales_id_sucursal sa = sucursal_id) (sucursales_almacenes d))))"

definition sql_sucursales_de_almacen :: "int \<Rightarrow> int \<Rightarrow> db \<Rightarrow> Sucursal list" where
  "sql_sucursales_de_almacen almacen_id id_emp d =
     sort_key id_sucursal
       (concat (map
         (\<lambda>sa. filter (\<lambda>s. id_sucursal s = sa_sucursales_id_sucursal sa
                            \<and> s_empresas_id_empresa s = id_emp)
                   (sucursales d))
         (filter (\<lambda>sa. sa_almacenes_id_almacen sa = almacen_id) (sucursales_almacenes d))))"

definition sql_usuarios_de_sucursal :: "int \<Rightarrow> int \<Rightarrow> db \<Rightarrow> Usuario list" where
  "sql_usuarios_de_sucursal sucursal_id id_emp d =
     sort_key id_usuario
       (concat (map
         (\<lambda>us. filter (\<lambda>u. id_usuario u = us_usuarios_id_usuario us
                            \<and> u_empresas_id_empresa u = id_emp)
                   (usuarios d))
         (filter (\<lambda>us. us_sucursales_id_sucursal us = sucursal_id) (usuarios_sucursales d))))"

definition sql_user :: "int \<Rightarrow> int \<Rightarrow> db \<Rightarrow> int list" where
  "sql_user id_usr id_emp d =
     map id_usuario
       (filter (\<lambda>u. id_usuario u = id_usr \<and> u_empresas_id_empresa u = id_emp) (usuarios d))"

text \<open>
  Writes. \<open>db.add(row); db.flush()\<close> sends an INSERT, which the store refuses when the
  primary key of the model is taken or a declared foreign key has no target. A flush of
  a changed object sends \<open>UPDATE ... WHERE\<close> primary key; \<open>db.delete\<close> sends
  \<open>DELETE ... WHERE\<close> primary key. A refused statement raises \<open>IntegrityError\<close> and
  the unit of work is rolled back, so the handlers below hand back the state the request
  started with.
\<close>

definition insert_sucursal :: "Sucursal \<Rightarrow> db \<Rightarrow> error + db" where
  "insert_sucursal row d =
     (if id_sucursal row \<in> set (map id_sucursal (sucursales d)) then Inl IntegrityError
      else Inr (d\<lparr>sucursales := sucursales d @ [row]\<rparr>))"

definition insert_almacen :: "Almacen \<Rightarrow> db \<Rightarrow> error + db" where
  "insert_almacen row d =
     (if id_almacen row \<in> set (map id_almacen (almacenes d)) then Inl IntegrityError
      else Inr (d\<lparr>almacenes := almacenes d @ [row]\<rparr>))"

definition insert_sucursal_almacen :: "SucursalAlmacen \<Rightarrow> db \<Rightarrow> error + db" where
  "insert_sucursal_almacen row d =
     (if row \<in> set (sucursales_almacenes d)
         \<or> sa_sucursales_id_sucursal row \<notin> set (map id_sucursal (sucursales d))
         \<or> sa_almacenes_id_almacen row \<notin> set (map id_almacen (almacenes d))
      then Inl IntegrityError
      else Inr (d\<lparr>sucursales_almacenes := sucursales_almacenes d @ [row]\<rparr>))"

definition insert_usuario_sucursal :: "UsuarioSucursal \<Rightarrow> db \<Rightarrow> error + db" where
  "insert_usuario_sucursal row d =
     (if row \<in> set (usuarios_sucursales d)
         \<or> us_sucursales_id_sucursal row \<notin> set (map id_sucursal (sucursales d))
      then Inl IntegrityError
      else Inr (d\<lparr>usuarios_sucursales := usuarios_sucursales d @ [row]\<rparr>))"

definition update_sucursal_row :: "Sucursal \<Rightarrow> db \<Rightarrow> db" where
  "update_sucursal_row row d =
     d\<lparr>sucursales := map (\<lambda>s. if id_sucursal s = id_sucursal row then row else s) (sucursales d)\<rparr>"

definition update_almacen_row :: "Almacen \<Rightarrow> db \<Rightarrow> db" where
  "update_almacen_row row d =
     d\<lparr>almacenes := map (\<lambda>a. if id_almacen a = id_almacen row then row else a) (almacenes d)\<rparr>"

definition delete_sucursal_almacen :: "SucursalAlmacen \<Rightarrow> db \<Rightarrow> db" where
  "delete_sucursal_almacen row d =
     d\<lparr>sucursales_almacenes := filter (\<lambda>l. l \<noteq> row) (sucursales_almacenes d)\<rparr>"

definition delete_usuario_sucursal :: "UsuarioSucursal \<Rightarrow> db \<Rightarrow> db" where
  "delete_usuario_sucursal row d =
     d\<lparr>usuarios_sucursales := filter (\<lambda>l. l \<noteq> row) (usuarios_sucursales d)\<rparr>"

text \<open>
  \<open>setattr\<close> of a field of \<open>model_dump(exclude_unset=True)\<close>: a field the body does
  not carry keeps the stored value. A null written to a nullable column is stored; a
  null written to a column declared \<open>nullable=False\<close> is refused at the flush, which
  the update handlers test before they write.
\<close>

definition setattr_required :: "'a option option \<Rightarrow> 'a \<Rightarrow> 'a" where
  "setattr_required v old = (case v of Some (Some x) \<Rightarrow> x | _ \<Rightarrow> old)"

definition setattr_nullable :: "'a option option \<Rightarrow> 'a option \<Rightarrow> 'a option" where
  "setattr_nullable v old = (case v of Some x \<Rightarrow> x | None \<Rightarrow> old)"

text \<open>\<open>SucursalResponse.model_validate(row)\<close> and \<open>AlmacenResponse.model_validate(row)\<close>.\<close>

definition SucursalResponse_of :: "Sucursal \<Rightarrow> SucursalResponse" where
  "SucursalResponse_of s =
     \<lparr>sr_nombre = s_nombre s, sr_direccion = direccion s, sr_telefono = telefono s,
      sr_estado = Some (s_estado s), sr_id_sucursal = id_sucursal s,
      sr_fecha_creacion = s_fecha_creacion s\<rparr>"

definition AlmacenResponse_of :: "Almacen \<Rightarrow> AlmacenResponse" where
  "AlmacenResponse_of a =
     \<lparr>ar_nombre = a_nombre a, ar_descripcion = descripcion a, ar_es_principal = es_principal a,
      ar_estado = Some (a_estado a), ar_id_almacen = id_almacen a,
      ar_fecha_creacion = a_fecha_creacion a\<rparr>"

definition UsuarioEnSucursalResponse_of :: "Usuario \<Rightarrow> UsuarioEnSucursalResponse" where
  "UsuarioEnSucursalResponse_of u =
     \<lparr>ur_id_usuario = id_usuario u, ur_nombre = u_nombre u, ur_apellido = apellido u,
      ur_email = email u, ur_es_dueno = es_dueno u, ur_estado = u_estado u,
      ur_fecha_creacion = u_fecha_creacion u\<rparr>"

section \<open>Branch handlers (app/routers/sucursales.py)\<close>

text \<open>
  Each handler takes the arguments of the source function. The permission dependency
  has already let the caller through when the body runs, so \<open>current_user\<close> is the
  admitted caller. A handler that writes returns its outcome together with the state of
  the unit of work it leaves; the two creating handlers also take what the store supplies
  at the INSERT: the primary key it assigns (\<open>new_id\<close>) and the column default
  \<open>datetime.utcnow\<close> (\<open>now\<close>).
\<close>

definition list_almacenes_de_sucursal ::
  "int \<Rightarrow> CurrentUser \<Rightarrow> db \<Rightarrow> error + AlmacenResponse list" where
  "list_almacenes_de_sucursal sucursal_id current_user d =
     (case scalar_one_or_none (q_sucursal sucursal_id (id_empresa (empresa current_user)) d) of
        Inl e \<Rightarrow> Inl e
      | Inr None \<Rightarrow> Inl (HTTPException HTTP_404_NOT_FOUND ''Branch not found in your company'')
      | Inr (Some sucursal) \<Rightarrow>
          Inr (map AlmacenResponse_of
                 (sql_almacenes_de_sucursal sucursal_id (id_empresa (empresa current_user)) d)))"

definition create_sucursal ::
  "int \<Rightarrow> datetime \<Rightarrow> SucursalCreate \<Rightarrow> CurrentUser \<Rightarrow> db \<Rightarrow> (error + SucursalResponse) \<times> db" where
  "create_sucursal new_id now sucursal_create current_user d =
     (let sucursal =
            \<lparr>id_sucursal = new_id,
             s_nombre = sc_nombre sucursal_create,
             direccion = sc_direccion sucursal_create,
             telefono = sc_telefono sucursal_create,
             s_estado = (case sc_estado sucursal_create of Some b \<Rightarrow> b | None \<Rightarrow> True),
             s_fecha_creacion = now,
             s_empresas_id_empresa = id_empresa (empresa current_user)\<rparr>
      in case insert_sucursal sucursal d of
           Inl e \<Rightarrow> (Inl e, d)
         | Inr d' \<Rightarrow> (Inr (SucursalResponse_of sucursal), d'))"

definition list_sucursales :: "CurrentUser \<Rightarrow> db \<Rightarrow> SucursalResponse list" where
  "list_sucursales current_user d =
     map SucursalResponse_of
       (filter (\<lambda>s. s_empresas_id_empresa s = id_empresa (empresa current_user)) (sucursales d))"

definition get_sucursal :: "int \<Rightarrow> CurrentUser \<Rightarrow> db \<Rightarrow> error + SucursalResponse" where
  "get_sucursal sucursal_id current_user d =
     (case scalar_one_or_none (q_sucursal sucursal_id (id_empresa (empresa current_user)) d) of
        Inl e \<Rightarrow> Inl e
      | Inr None \<Rightarrow> Inl (HTTPException HTTP_404_NOT_FOUND ''Branch not found'')
      | Inr (Some sucursal) \<Rightarrow> Inr (SucursalResponse_of sucursal))"

text \<open>
  The file defines \<open>assign_usuario_to_sucursal\<close> twice, both registered for
  \<open>POST /sucursales/{sucursal_id}/usuarios\<close>. This is the first definition: the branch
  comes from the path, the user from the body.
\<close>

definition assign_usuario_to_sucursal ::
  "int \<Rightarrow> UsuarioSucursalCreate \<Rightarrow> CurrentUser \<Rightarrow> db \<Rightarrow> (error + UsuarioSucursalResponse) \<times> db" where
  "assign_usuario_to_sucursal sucursal_id payload current_user d =
     (case scalar_one_or_none (q_sucursal sucursal_id (id_empresa (empresa current_user)) d) of
        Inl e \<Rightarrow> (Inl e, d)
      | Inr None \<Rightarrow>
          (Inl (HTTPException HTTP_400_BAD_REQUEST
                  ''Sucursal does not belong to your company or does not exist''), d)
      | Inr (Some sucursal) \<Rightarrow>
          (case fetchone (sql_user (usc_usuario_id payload) (id_empresa (empresa current_user)) d) of
             None \<Rightarrow>
               (Inl (HTTPException HTTP_400_BAD_REQUEST
                       ''User does not belong to your company or does not exist''), d)
           | Some user_row \<Rightarrow>
               (case insert_usuario_sucursal
                       \<lparr>us_usuarios_id_usuario = usc_usuario_id payload,
                        us_sucursales_id_sucursal = sucursal_id\<rparr> d of
                  Inl e \<Rightarrow> (Inl e, d)
                | Inr d' \<Rightarrow>
                    (Inr \<lparr>usr_usuarios_id_usuario = usc_usuario_id payload,
                          usr_sucursales_id_sucursal = sucursal_id\<rparr>, d'))))"

definition update_sucursal ::
  "int \<Rightarrow> SucursalUpdate \<Rightarrow> CurrentUser \<Rightarrow> db \<Rightarrow> (error + SucursalResponse) \<times> db" where
  "update_sucursal sucursal_id sucursal_update current_user d =
     (case scalar_one_or_none (q_sucursal sucursal_id (id_empresa (empresa current_user)) d) of
        Inl e \<Rightarrow> (Inl e, d)
      | Inr None \<Rightarrow> (Inl (HTTPException HTTP_404_NOT_FOUND ''Branch not found''), d)
      | Inr (Some sucursal) \<Rightarrow>
          (if su_nombre sucursal_update = Some None
              \<or> su_direccion sucursal_update = Some None
              \<or> su_estado sucursal_update = Some None
           then (Inl IntegrityError, d)
           else
             (let sucursal' = sucursal
                    \<lparr>s_nombre := setattr_required (su_nombre sucursal_update) (s_nombre sucursal),
                     direccion := setattr_required (su_direccion sucursal_update) (direccion sucursal),
                     telefono := setattr_nullable (su_telefono sucursal_update) (telefono sucursal),
                     s_estado := setattr_required (su_estado sucursal_update) (s_estado sucursal)\<rparr>
              in (Inr (SucursalResponse_of sucursal'), update_sucursal_row sucursal' d))))"

definition delete_sucursal ::
  "int \<Rightarrow> CurrentUser \<Rightarrow> db \<Rightarrow> (error + no_content) \<times> db" where
  "delete_sucursal sucursal_id current_user d =
     (case scalar_one_or_none (q_sucursal sucursal_id (id_empresa (empresa current_user)) d) of
        Inl e \<Rightarrow> (Inl e, d)
      | Inr None \<Rightarrow> (Inl (HTTPException HTTP_404_NOT_FOUND ''Branch not found''), d)
      | Inr (Some sucursal) \<Rightarrow>
          (Inr NoContent, update_sucursal_row (sucursal\<lparr>s_estado := False\<rparr>) d))"

definition list_usuarios_de_sucursal ::
  "int \<Rightarrow> CurrentUser \<Rightarrow> db \<Rightarrow> error + UsuarioEnSucursalResponse list" where
  "list_usuarios_de_sucursal sucursal_id current_user d =
     (case scalar_one_or_none (q_sucursal sucursal_id (id_empresa (empresa current_user)) d) of
        Inl e \<Rightarrow> Inl e
      | Inr None \<Rightarrow> Inl (HTTPException HTTP_404_NOT_FOUND ''Branch not found in your company'')
      | Inr (Some sucursal) \<Rightarrow>
          Inr (map UsuarioEnSucursalResponse_of
                 (sql_usuarios_de_sucursal sucursal_id (id_empresa (empresa current_user)) d)))"

text \<open>
  The second definition reads \<open>payload.sucursales_id_sucursal\<close> and
  \<open>payload.usuarios_id_usuario\<close>. The schema \<open>UsuarioSucursalCreate\<close> declares
  \<open>usuario_id\<close> alone, so reading any other attribute of the payload raises.
\<close>

definition getattr_UsuarioSucursalCreate :: "UsuarioSucursalCreate \<Rightarrow> string \<Rightarrow> error + int" where
  "getattr_UsuarioSucursalCreate payload name =
     (if name = ''usuario_id'' then Inr (usc_usuario_id payload) else Inl AttributeError)"

definition assign_usuario_to_sucursal_2 ::
  "int \<Rightarrow> UsuarioSucursalCreate \<Rightarrow> CurrentUser \<Rightarrow> db \<Rightarrow> (error + UsuarioSucursalResponse) \<times> db" where
  "assign_usuario_to_sucursal_2 sucursal_id payload current_user d =
     (case getattr_UsuarioSucursalCreate payload ''sucursales_id_sucursal'' of
        Inl e \<Rightarrow> (Inl e, d)
      | Inr body_sucursal \<Rightarrow>
     if body_sucursal \<noteq> sucursal_id
     then (Inl (HTTPException HTTP_400_BAD_REQUEST
                  ''sucursales_id_sucursal must match path parameter''), d)
     else
     (case scalar_one_or_none (q_sucursal sucursal_id (id_empresa (empresa current_user)) d) of
        Inl e \<Rightarrow> (Inl e, d)
      | Inr None \<Rightarrow>
          (Inl (HTTPException HTTP_400_BAD_REQUEST
                  ''Sucursal does not belong to your company or does not exist''), d)
      | Inr (Some sucursal) \<Rightarrow>
     (case getattr_UsuarioSucursalCreate payload ''usuarios_id_usuario'' of
        Inl e \<Rightarrow> (Inl e, d)
      | Inr body_usuario \<Rightarrow>
          (case fetchone (sql_user body_usuario (id_empresa (empresa current_user)) d) of
             None \<Rightarrow>
               (Inl (HTTPException HTTP_400_BAD_REQUEST
                       ''User does not belong to your company or does not exist''), d)
           | Some user_row \<Rightarrow>
               (case insert_usuario_sucursal
                       \<lparr>us_usuarios_id_usuario = body_usuario,
                        us_sucursales_id_sucursal = sucursal_id\<rparr> d of
                  Inl e \<Rightarrow> (Inl e, d)
                | Inr d' \<Rightarrow>
                    (Inr \<lparr>usr_usuarios_id_usuario = body_usuario,
                          usr_sucursales_id_sucursal = sucursal_id\<rparr>, d'))))))"

definition remove_usuario_from_sucursal ::
  "int \<Rightarrow> int \<Rightarrow> CurrentUser \<Rightarrow> db \<Rightarrow> (error + no_content) \<times> db" where
  "remove_usuario_from_sucursal sucursal_id usuario_id current_user d =
     (case scalar_one_or_none (q_sucursal sucursal_id (id_empresa (empresa current_user)) d) of
        Inl e \<Rightarrow> (Inl e, d)
      | Inr None \<Rightarrow> (Inl (HTTPException HTTP_404_NOT_FOUND ''Branch not found in your company''), d)
      | Inr (Some sucursal) \<Rightarrow>
          (case scalar_one_or_none
                  (filter (\<lambda>l. us_usuarios_id_usuario l = usuario_id
                               \<and> us_sucursales_id_sucursal l = sucursal_id)
                     (usuarios_sucursales d)) of
             Inl e \<Rightarrow> (Inl e, d)
           | Inr None \<Rightarrow> (Inl (HTTPException HTTP_404_NOT_FOUND ''Assignment not found''), d)
           | Inr (Some asign) \<Rightarrow> (Inr NoContent, delete_usuario_sucursal asign d)))"

section \<open>Warehouse handlers (app/routers/almacenes.py)\<close>

definition list_almacenes :: "CurrentUser \<Rightarrow> db \<Rightarrow> AlmacenResponse list" where
  "list_almacenes current_user d =
     map AlmacenResponse_of
       (filter (\<lambda>a. a_empresas_id_empresa a = id_empresa (empresa current_user)) (almacenes d))"

definition get_almacen :: "int \<Rightarrow> CurrentUser \<Rightarrow> db \<Rightarrow> error + AlmacenResponse" where
  "get_almacen almacen_id current_user d =
     (case scalar_one_or_none (q_almacen almacen_id (id_empresa (empresa current_user)) d) of
        Inl e \<Rightarrow> Inl e
      | Inr None \<Rightarrow> Inl (HTTPException HTTP_404_NOT_FOUND ''Warehouse not found'')
      | Inr (Some almacen) \<Rightarrow> Inr (AlmacenResponse_of almacen))"

definition create_almacen ::
  "int \<Rightarrow> datetime \<Rightarrow> AlmacenCreate \<Rightarrow> CurrentUser \<Rightarrow> db \<Rightarrow> (error + AlmacenResponse) \<times> db" where
  "create_almacen new_id now almacen_create current_user d =
     (case scalar_one_or_none
             (q_sucursal (ac_sucursal_id almacen_create) (id_empresa (empresa current_user)) d) of
        Inl e \<Rightarrow> (Inl e, d)
      | Inr None \<Rightarrow>
          (Inl (HTTPException HTTP_400_BAD_REQUEST
                  ''Sucursal does not belong to your company or does not exist''), d)
      | Inr (Some sucursal) \<Rightarrow>
          (let almacen =
                 \<lparr>id_almacen = new_id,
                  a_nombre = ac_nombre almacen_create,
                  descripcion = ac_descripcion almacen_create,
                  es_principal = ac_es_principal almacen_create,
                  a_estado = (case ac_estado almacen_create of Some b \<Rightarrow> b | None \<Rightarrow> True),
                  a_fecha_creacion = now,
                  a_empresas_id_empresa = id_empresa (empresa current_user)\<rparr>
           in case insert_almacen almacen d of
                Inl e \<Rightarrow> (Inl e, d)
              | Inr d1 \<Rightarrow>
                  (case insert_sucursal_almacen
                          \<lparr>sa_sucursales_id_sucursal = ac_sucursal_id almacen_create,
                           sa_almacenes_id_almacen = id_almacen almacen\<rparr> d1 of
                     Inl e \<Rightarrow> (Inl e, d)
                   | Inr d2 \<Rightarrow> (Inr (AlmacenResponse_of almacen), d2))))"

definition update_almacen ::
  "int \<Rightarrow> AlmacenUpdate \<Rightarrow> CurrentUser \<Rightarrow> db \<Rightarrow> (error + AlmacenResponse) \<times> db" where
  "update_almacen almacen_id almacen_update current_user d =
     (case scalar_one_or_none (q_almacen almacen_id (id_empresa (empresa current_user)) d) of
        Inl e \<Rightarrow> (Inl e, d)
      | Inr None \<Rightarrow> (Inl (HTTPException HTTP_404_NOT_FOUND ''Warehouse not found''), d)
      | Inr (Some almacen) \<Rightarrow>
          (if au_nombre almacen_update = Some None
              \<or> au_es_principal almacen_update = Some None
              \<or> au_estado almacen_update = Some None
           then (Inl IntegrityError, d)
           else
             (let almacen' = almacen
                    \<lparr>a_nombre := setattr_required (au_nombre almacen_update) (a_nombre almacen),
                     descripcion := setattr_nullable (au_descripcion almacen_update) (descripcion almacen),
                     es_principal := setattr_required (au_es_principal almacen_update) (es_principal almacen),
                     a_estado := setattr_required (au_estado almacen_update) (a_estado almacen)\<rparr>
              in (Inr (AlmacenResponse_of almacen'), update_almacen_row almacen' d))))"

definition delete_almacen ::
  "int \<Rightarrow> CurrentUser \<Rightarrow> db \<Rightarrow> (error + no_content) \<times> db" where
  "delete_almacen almacen_id current_user d =
     (case scalar_one_or_none (q_almacen almacen_id (id_empresa (empresa current_user)) d) of
        Inl e \<Rightarrow> (Inl e, d)
      | Inr None \<Rightarrow> (Inl (HTTPException HTTP_404_NOT_FOUND ''Warehouse not found''), d)
      | Inr (Some almacen) \<Rightarrow>
          (Inr NoContent, update_almacen_row (almacen\<lparr>a_estado := False\<rparr>) d))"

definition list_sucursales_de_almacen ::
  "int \<Rightarrow> CurrentUser \<Rightarrow> db \<Rightarrow> error + SucursalResponse list" where
  "list_sucursales_de_almacen almacen_id current_user d =
     (case scalar_one_or_none (q_almacen almacen_id (id_empresa (empresa current_user)) d) of
        Inl e \<Rightarrow> Inl e
      | Inr None \<Rightarrow> Inl (HTTPException HTTP_404_NOT_FOUND ''Warehouse not found in your company'')
      | Inr (Some almacen) \<Rightarrow>
          Inr (map SucursalResponse_of
                 (sql_sucursales_de_almacen almacen_id (id_empresa (empresa current_user)) d)))"

definition link_sucursal_to_almacen ::
  "int \<Rightarrow> SucursalAlmacenCreate \<Rightarrow> CurrentUser \<Rightarrow> db \<Rightarrow> (error + SucursalAlmacenResponse) \<times> db" where
  "link_sucursal_to_almacen almacen_id payload current_user d =
     (case scalar_one_or_none (q_almacen almacen_id (id_empresa (empresa current_user)) d) of
        Inl e \<Rightarrow> (Inl e, d)
      | Inr None \<Rightarrow>
          (Inl (HTTPException HTTP_400_BAD_REQUEST
                  ''Almacen does not belong to your company or does not exist''), d)
      | Inr (Some almacen) \<Rightarrow>
          (case scalar_one_or_none
                  (q_sucursal (sac_sucursal_id payload) (id_empresa (empresa current_user)) d) of
             Inl e \<Rightarrow> (Inl e, d)
           | Inr None \<Rightarrow>
               (Inl (HTTPException HTTP_400_BAD_REQUEST
                       ''Sucursal does not belong to your company or does not exist''), d)
           | Inr (Some sucursal) \<Rightarrow>
               (case insert_sucursal_almacen
                       \<lparr>sa_sucursales_id_sucursal = sac_sucursal_id payload,
                        sa_almacenes_id_almacen = almacen_id\<rparr> d of
                  Inl e \<Rightarrow> (Inl e, d)
                | Inr d' \<Rightarrow>
                    (Inr \<lparr>sar_sucursales_id_sucursal = sac_sucursal_id payload,
                          sar_almacenes_id_almacen = almacen_id\<rparr>, d'))))"

definition unlink_sucursal_from_almacen ::
  "int \<Rightarrow> int \<Rightarrow> CurrentUser \<Rightarrow> db \<Rightarrow> (error + no_content) \<times> db" where
  "unlink_sucursal_from_almacen almacen_id sucursal_id current_user d =
     (case scalar_one_or_none (q_almacen almacen_id (id_empresa (empresa current_user)) d) of
        Inl e \<Rightarrow> (Inl e, d)
      | Inr None \<Rightarrow>
          (Inl (HTTPException HTTP_404_NOT_FOUND ''Warehouse not found in your company''), d)
      | Inr (Some almacen) \<Rightarrow>
          (case scalar_one_or_none
                  (filter (\<lambda>l. sa_almacenes_id_almacen l = almacen_id
                               \<and> sa_sucursales_id_sucursal l = sucursal_id)
                     (sucursales_almacenes d)) of
             Inl e \<Rightarrow> (Inl e, d)
           | Inr None \<Rightarrow> (Inl (HTTPException HTTP_404_NOT_FOUND ''Link not found''), d)
           | Inr (Some vinculo) \<Rightarrow> (Inr NoContent, delete_sucursal_almacen vinculo d)))"

section \<open>The route POST /sucursales/{sucursal_id}/usuarios\<close>

text \<open>
  A JSON body is the list of its keys with their integer values, in the order of the
  document; of a key written twice the parser keeps the last value. Validation against
  \<open>UsuarioSucursalCreate\<close> asks for the key \<open>usuario_id\<close> and drops every other
  key (the schema sets no \<open>extra\<close> policy). Two routes are registered for the path, in
  the order of the file; the router serves a request with the first route that matches,
  which is the first definition.
\<close>

type_synonym json_body = "(string \<times> int) list"

definition validate_UsuarioSucursalCreate :: "json_body \<Rightarrow> error + UsuarioSucursalCreate" where
  "validate_UsuarioSucursalCreate body =
     (case map_of (rev body) ''usuario_id'' of
        None \<Rightarrow> Inl (HTTPException HTTP_422_UNPROCESSABLE_ENTITY ''Field required'')
      | Some v \<Rightarrow> Inr \<lparr>usc_usuario_id = v\<rparr>)"

definition post_sucursales_usuarios ::
  "int \<Rightarrow> json_body \<Rightarrow> CurrentUser \<Rightarrow> db \<Rightarrow> (error + UsuarioSucursalResponse) \<times> db" where
  "post_sucursales_usuarios sucursal_id body current_user d =
     (case validate_UsuarioSucursalCreate body of
        Inl e \<Rightarrow> (Inl e, d)
      | Inr payload \<Rightarrow> assign_usuario_to_sucursal sucursal_id payload current_user d)"

section \<open>The exposed operations as a transition system\<close>

text \<open>
  One constructor for each route of the two routers, with the arguments of its handler.
  \<open>step\<close> is the effect of a request on the store, \<open>caller\<close> the user who sends it,
  \<open>run\<close> a sequence of requests.
\<close>

datatype request =
    ListAlmacenesDeSucursal int CurrentUser
  | CreateSucursal int datetime SucursalCreate CurrentUser
  | ListSucursales CurrentUser
  | GetSucursal int CurrentUser
  | AssignUsuarioToSucursal int UsuarioSucursalCreate CurrentUser
  | UpdateSucursal int SucursalUpdate CurrentUser
  | DeleteSucursal int CurrentUser
  | ListUsuariosDeSucursal int CurrentUser
  | RemoveUsuarioFromSucursal int int CurrentUser
  | ListAlmacenes CurrentUser
  | GetAlmacen int CurrentUser
  | CreateAlmacen int datetime AlmacenCreate CurrentUser
  | UpdateAlmacen int AlmacenUpdate CurrentUser
  | DeleteAlmacen int CurrentUser
  | ListSucursalesDeAlmacen int CurrentUser
  | LinkSucursalToAlmacen int SucursalAlmacenCreate CurrentUser
  | UnlinkSucursalFromAlmacen int int CurrentUser

fun step :: "request \<Rightarrow> db \<Rightarrow> db" where
  "step (ListAlmacenesDeSucursal i u) d = d"
| "step (CreateSucursal n t p u) d = snd (create_sucursal n t p u d)"
| "step (ListSucursales u) d = d"
| "step (GetSucursal i u) d = d"
| "step (AssignUsuarioToSucursal i p u) d = snd (assign_usuario_to_sucursal i p u d)"
| "step (UpdateSucursal i p u) d = snd (update_sucursal i p u d)"
| "step (DeleteSucursal i u) d = snd (delete_sucursal i u d)"
| "step (ListUsuariosDeSucursal i u) d = d"
| "step (RemoveUsuarioFromSucursal i j u) d = snd (remove_usuario_from_sucursal i j u d)"
| "step (ListAlmacenes u) d = d"
| "step (GetAlmacen i u) d = d"
| "step (CreateAlmacen n t p u) d = snd (create_almacen n t p u d)"
| "step (UpdateAlmacen i p u) d = snd (update_almacen i p u d)"
| "step (DeleteAlmacen i u) d = snd (delete_almacen i u d)"
| "step (ListSucursalesDeAlmacen i u) d = d"
| "step (LinkSucursalToAlmacen i p u) d = snd (link_sucursal_to_almacen i p u d)"
| "step (UnlinkSucursalFromAlmacen i j u) d = snd (unlink_sucursal_from_almacen i j u d)"

fun caller :: "request \<Rightarrow> CurrentUser" where
  "caller (ListAlmacenesDeSucursal i u) = u"
| "caller (CreateSucursal n t p u) = u"
| "caller (ListSucursales u) = u"
| "caller (GetSucursal i u) = u"
| "caller (AssignUsuarioToSucursal i p u) = u"
| "caller (UpdateSucursal i p u) = u"
| "caller (DeleteSucursal i u) = u"
| "caller (ListUsuariosDeSucursal i u) = u"
| "caller (RemoveUsuarioFromSucursal i j u) = u"
| "caller (ListAlmacenes u) = u"
| "caller (GetAlmacen i u) = u"
| "caller (CreateAlmacen n t p u) = u"
| "caller (UpdateAlmacen i p u) = u"
| "caller (DeleteAlmacen i u) = u"
| "caller (ListSucursalesDeAlmacen i u) = u"
| "caller (LinkSucursalToAlmacen i p u) = u"
| "caller (UnlinkSucursalFromAlmacen i j u) = u"

fun run :: "request list \<Rightarrow> db \<Rightarrow> db" where
  "run [] d = d"
| "run (r # rs) d = run rs (step r d)"

definition empty_db :: db where
  "empty_db = \<lparr>sucursales = [], almacenes = [], sucursales_almacenes = [],
               usuarios = [], usuarios_sucursales = []\<rparr>"

text \<open>The primary keys of the two entity tables: no id occurs twice.\<close>

definition primary_keys :: "db \<Rightarrow> bool" where
  "primary_keys d \<longleftrightarrow>
     distinct (map id_sucursal (sucursales d)) \<and> distinct (map id_almacen (almacenes d))"

text \<open>
  The id and the owning company of a row; a link row is in the company \<open>c\<close> when a
  stored branch and a stored warehouse with the ids of the link both belong to \<open>c\<close>.
  The link invariant: ids are unique, and every link row is in some company, that is, it
  joins a stored branch and a stored warehouse of one and the same company.
\<close>

definition sucursal_owner :: "Sucursal \<Rightarrow> int \<times> int" where
  "sucursal_owner s = (id_sucursal s, s_empresas_id_empresa s)"

definition almacen_owner :: "Almacen \<Rightarrow> int \<times> int" where
  "almacen_owner a = (id_almacen a, a_empresas_id_empresa a)"

definition link_in_company :: "int \<Rightarrow> db \<Rightarrow> SucursalAlmacen \<Rightarrow> bool" where
  "link_in_company c d l \<longleftrightarrow>
     (sa_sucursales_id_sucursal l, c) \<in> set (map sucursal_owner (sucursales d))
     \<and> (sa_almacenes_id_almacen l, c) \<in> set (map almacen_owner (almacenes d))"

definition same_company_links :: "db \<Rightarrow> bool" where
  "same_company_links d \<longleftrightarrow>
     primary_keys d \<and>
     (\<forall>l\<in>set (sucursales_almacenes d).
        \<exists>s\<in>set (sucursales d). \<exists>a\<in>set (almacenes d).
          id_sucursal s = sa_sucursales_id_sucursal l
          \<and> id_almacen a = sa_almacenes_id_almacen l
          \<and> s_empresas_id_empresa s = a_empresas_id_empresa a)"

text \<open>
  The branch \<open>i\<close> of company \<open>c\<close> is inactive when the id is stored and every row
  with that id belongs to \<open>c\<close> and has \<open>estado\<close> false; likewise a warehouse. A
  request reactivates the branch \<open>i\<close> of company \<open>c\<close> when it is a partial update of
  branch \<open>i\<close>, sent by a caller of company \<open>c\<close>, whose body carries \<open>estado\<close> true
  and no null for a column that takes none (such a body is refused).
\<close>

definition sucursal_inactive :: "db \<Rightarrow> int \<Rightarrow> int \<Rightarrow> bool" where
  "sucursal_inactive d i c \<longleftrightarrow>
     (\<exists>s\<in>set (sucursales d). id_sucursal s = i)
     \<and> (\<forall>s\<in>set (sucursales d).
          id_sucursal s = i \<longrightarrow> s_empresas_id_empresa s = c \<and> \<not> s_estado s)"

definition almacen_inactive :: "db \<Rightarrow> int \<Rightarrow> int \<Rightarrow> bool" where
  "almacen_inactive d i c \<longleftrightarrow>
     (\<exists>a\<in>set (almacenes d). id_almacen a = i)
     \<and> (\<forall>a\<in>set (almacenes d).
          id_almacen a = i \<longrightarrow> a_empresas_id_empresa a = c \<and> \<not> a_estado a)"

fun reactivates_sucursal :: "int \<Rightarrow> int \<Rightarrow> request \<Rightarrow> bool" where
  "reactivates_sucursal i c (UpdateSucursal j p u) =
     (j = i \<and> id_empresa (empresa u) = c \<and> su_estado p = Some (Some True)
      \<and> su_nombre p \<noteq> Some None \<and> su_direccion p \<noteq> Some None)"
| "reactivates_sucursal i c _ = False"

fun reactivates_almacen :: "int \<Rightarrow> int \<Rightarrow> request \<Rightarrow> bool" where
  "reactivates_almacen i c (UpdateAlmacen j p u) =
     (j = i \<and> id_empresa (empresa u) = c \<and> au_estado p = Some (Some True)
      \<and> au_nombre p \<noteq> Some None \<and> au_es_principal p \<noteq> Some None)"
| "reactivates_almacen i c _ = False"

section \<open>A small store for the examples\<close>

text \<open>
  Two companies. Company 1 has branch 1 and warehouse 1, linked, and user 7; company 2
  has branch 2 (inactive) and warehouse 2, linked, and user 8.
\<close>

definition user1 :: CurrentUser where
  "user1 = \<lparr>empresa = \<lparr>id_empresa = 1\<rparr>\<rparr>"

definition user2 :: CurrentUser where
  "user2 = \<lparr>empresa = \<lparr>id_empresa = 2\<rparr>\<rparr>"

definition branch1 :: Sucursal where
  "branch1 = \<lparr>id_sucursal = 1, s_nombre = ''Central'', direccion = ''Av. 1'', telefono = None,
              s_estado = True, s_fecha_creacion = 100, s_empresas_id_empresa = 1\<rparr>"

definition branch2 :: Sucursal where
  "branch2 = \<lparr>id_sucursal = 2, s_nombre = ''Norte'', direccion = ''Av. 2'', telefono = Some ''555'',
              s_estado = False, s_fecha_creacion = 110, s_empresas_id_empresa = 2\<rparr>"

definition warehouse1 :: Almacen where
  "warehouse1 = \<lparr>id_almacen = 1, a_nombre = ''A1'', descripcion = None, es_principal = True,
                 a_estado = True, a_fecha_creacion = 120, a_empresas_id_empresa = 1\<rparr>"

definition warehouse2 :: Almacen where
  "warehouse2 = \<lparr>id_almacen = 2, a_nombre = ''A2'', descripcion = Some ''frio'', es_principal = False,
                 a_estado = True, a_fecha_creacion = 130, a_empresas_id_empresa = 2\<rparr>"

definition person :: "int \<Rightarrow> int \<Rightarrow> Usuario" where
  "person i c = \<lparr>id_usuario = i, u_nombre = ''Ana'', apellido = ''Paz'', email = ''a@b.c'',
                 es_dueno = False, u_estado = True, u_fecha_creacion = 90,
                 u_empresas_id_empresa = c\<rparr>"

definition store0 :: db where
  "store0 = \<lparr>sucursales = [branch1, branch2], almacenes = [warehouse1, warehouse2],
             sucursales_almacenes =
               [\<lparr>sa_sucursales_id_sucursal = 1, sa_almacenes_id_almacen = 1\<rparr>,
                \<lparr>sa_sucursales_id_sucursal = 2, sa_almacenes_id_almacen = 2\<rparr>],
             usuarios = [person 7 1, person 8 2], usuarios_sucursales = []\<rparr>"

text \<open>Request bodies of the examples.\<close>

definition new_warehouse :: "int \<Rightarrow> AlmacenCreate" where
  "new_warehouse sid = \<lparr>ac_nombre = ''W'', ac_descripcion = None, ac_es_principal = False,
                        ac_estado = None, ac_sucursal_id = sid\<rparr>"

definition new_branch :: "int option \<Rightarrow> SucursalCreate" where
  "new_branch aid = \<lparr>sc_nombre = ''Sur'', sc_direccion = ''Av. 3'', sc_telefono = None,
                     sc_estado = None, sc_almacen_id = aid\<rparr>"

definition patch_sucursal_estado :: "bool \<Rightarrow> SucursalUpdate" where
  "patch_sucursal_estado b = \<lparr>su_nombre = None, su_direccion = None, su_telefono = None,
                             su_estado = Some (Some b)\<rparr>"

definition patch_almacen_estado :: "bool \<Rightarrow> AlmacenUpdate" where
  "patch_almacen_estado b = \<lparr>au_nombre = None, au_descripcion = None, au_es_principal = None,
                            au_estado = Some (Some b)\<rparr>"

definition patch_sucursal_null_nombre :: SucursalUpdate where
  "patch_sucursal_null_nombre = \<lparr>su_nombre = Some None, su_direccion = Some (Some ''Av. 9''),
                                 su_telefono = None, su_estado = None\<rparr>"

definition patch_almacen_nombre :: "string \<Rightarrow> AlmacenUpdate" where
  "patch_almacen_nombre n = \<lparr>au_nombre = Some (Some n), au_descripcion = None,
                             au_es_principal = None, au_estado = None\<rparr>"

definition patch_sucursal_nombre :: "string \<Rightarrow> SucursalUpdate" where
  "patch_sucursal_nombre n = \<lparr>su_nombre = Some (Some n), su_direccion = None,
                              su_telefono = None, su_estado = None\<rparr>"

text \<open>
  A body for \<open>POST /sucursales/1/usuarios\<close> that names user 7 and, besides, branch 2.
\<close>

definition mismatched_body :: json_body where
  "mismatched_body = [(''usuario_id'', 7), (''sucursales_id_sucursal'', 2)]"

section \<open>Auxiliary facts\<close>

lemmas store_defs =
  store0_def branch1_def branch2_def warehouse1_def warehouse2_def person_def
  user1_def user2_def

lemma scalar_one_or_none_Some: "scalar_one_or_none xs = Inr (Some x) \<longleftrightarrow> xs = [x]"
  by (auto simp: scalar_one_or_none_def split: list.splits)

lemma scalar_one_or_none_None: "scalar_one_or_none xs = Inr None \<longleftrightarrow> xs = []"
  by (auto simp: scalar_one_or_none_def split: list.splits)

lemma set_sql_almacenes_de_sucursal:
  "a \<in> set (sql_almacenes_de_sucursal i c d)
   \<Longrightarrow> a \<in> set (almacenes d) \<and> a_empresas_id_empresa a = c"
  by (auto simp: sql_almacenes_de_sucursal_def)

lemma set_sql_sucursales_de_almacen:
  "s \<in> set (sql_sucursales_de_almacen i c d)
   \<Longrightarrow> s \<in> set (sucursales d) \<and> s_empresas_id_empresa s = c"
  by (auto simp: sql_sucursales_de_almacen_def)

section \<open>Tenant isolation of the listings\<close>

text \<open>
  Claim C1. Whoever calls and whatever the store holds, each of the four listings (all
  branches, all warehouses, the warehouses of a branch, the branches of a warehouse)
  answers with the responses of stored rows that all belong to the caller's company. A
  response carries no company id, so the statement is about the rows the responses are
  made from.
\<close>

theorem listings_tenant_isolation:
  "(\<exists>rows. list_sucursales u d = map SucursalResponse_of rows
        \<and> (\<forall>s\<in>set rows. s \<in> set (sucursales d)
              \<and> s_empresas_id_empresa s = id_empresa (empresa u)))
   \<and> (\<exists>rows. list_almacenes u d = map AlmacenResponse_of rows
        \<and> (\<forall>a\<in>set rows. a \<in> set (almacenes d)
              \<and> a_empresas_id_empresa a = id_empresa (empresa u)))
   \<and> (\<forall>rs. list_almacenes_de_sucursal i u d = Inr rs \<longrightarrow>
        (\<exists>rows. rs = map AlmacenResponse_of rows
           \<and> (\<forall>a\<in>set rows. a \<in> set (almacenes d)
                 \<and> a_empresas_id_empresa a = id_empresa (empresa u))))
   \<and> (\<forall>rs. list_sucursales_de_almacen j u d = Inr rs \<longrightarrow>
        (\<exists>rows. rs = map SucursalResponse_of rows
           \<and> (\<forall>s\<in>set rows. s \<in> set (sucursales d)
                 \<and> s_empresas_id_empresa s = id_empresa (empresa u))))"
proof (intro conjI allI impI)
  show "\<exists>rows. list_sucursales u d = map SucursalResponse_of rows
        \<and> (\<forall>s\<in>set rows. s \<in> set (sucursales d)
              \<and> s_empresas_id_empresa s = id_empresa (empresa u))"
    unfolding list_sucursales_def by (rule exI, rule conjI, rule refl) simp
  show "\<exists>rows. list_almacenes u d = map AlmacenResponse_of rows
        \<and> (\<forall>a\<in>set rows. a \<in> set (almacenes d)
              \<and> a_empresas_id_empresa a = id_empresa (empresa u))"
    unfolding list_almacenes_def by (rule exI, rule conjI, rule refl) simp
next
  fix rs assume "list_almacenes_de_sucursal i u d = Inr rs"
  then have "rs = map AlmacenResponse_of
                    (sql_almacenes_de_sucursal i (id_empresa (empresa u)) d)"
    by (auto simp: list_almacenes_de_sucursal_def split: sum.splits option.splits)
  then show "\<exists>rows. rs = map AlmacenResponse_of rows
           \<and> (\<forall>a\<in>set rows. a \<in> set (almacenes d)
                 \<and> a_empresas_id_empresa a = id_empresa (empresa u))"
    using set_sql_almacenes_de_sucursal by blast
next
  fix rs assume "list_sucursales_de_almacen j u d = Inr rs"
  then have "rs = map SucursalResponse_of
                    (sql_sucursales_de_almacen j (id_empresa (empresa u)) d)"
    by (auto simp: list_sucursales_de_almacen_def split: sum.splits option.splits)
  then show "\<exists>rows. rs = map SucursalResponse_of rows
           \<and> (\<forall>s\<in>set rows. s \<in> set (sucursales d)
                 \<and> s_empresas_id_empresa s = id_empresa (empresa u))"
    using set_sql_sucursales_de_almacen by blast
qed

text \<open>
  In the example store the two join listings of company 1 answer with its one warehouse
  and its one branch, and never with the rows of company 2.
\<close>

theorem listings_tenant_isolation_witness:
  "list_almacenes_de_sucursal 1 user1 store0 = Inr [AlmacenResponse_of warehouse1]
   \<and> list_sucursales_de_almacen 1 user1 store0 = Inr [SucursalResponse_of branch1]
   \<and> (\<exists>rows. [AlmacenResponse_of warehouse1] = map AlmacenResponse_of rows
         \<and> (\<forall>a\<in>set rows. a \<in> set (almacenes store0) \<and> a_empresas_id_empresa a = 1))
   \<and> (\<exists>rows. [SucursalResponse_of branch1] = map SucursalResponse_of rows
         \<and> (\<forall>s\<in>set rows. s \<in> set (sucursales store0) \<and> s_empresas_id_empresa s = 1))"
proof -
  have a: "list_almacenes_de_sucursal 1 user1 store0 = Inr [AlmacenResponse_of warehouse1]"
    by (simp add: list_almacenes_de_sucursal_def q_sucursal_def scalar_one_or_none_def
        sql_almacenes_de_sucursal_def store_defs)
  have b: "list_sucursales_de_almacen 1 user1 store0 = Inr [SucursalResponse_of branch1]"
    by (simp add: list_sucursales_de_almacen_def q_almacen_def scalar_one_or_none_def
        sql_sucursales_de_almacen_def store_defs)
  have c: "id_empresa (empresa user1) = 1" by (simp add: user1_def)
  from listings_tenant_isolation [of user1 store0 1 1] a b c show ?thesis by simp
qed

section \<open>Creating a warehouse for a branch the caller does not own\<close>

text \<open>
  Claim C2. When no stored branch has the id \<open>sucursal_id\<close> of the body and the
  caller's company (the branch is missing or belongs to another company),
  \<open>create_almacen\<close> raises the 400 error and hands back the store as it was: no
  warehouse row, no link row.
\<close>

theorem create_almacen_foreign_sucursal:
  assumes "\<not> (\<exists>s\<in>set (sucursales d). id_sucursal s = ac_sucursal_id p
                 \<and> s_empresas_id_empresa s = id_empresa (empresa u))"
  shows "create_almacen n t p u d =
     (Inl (HTTPException HTTP_400_BAD_REQUEST
             ''Sucursal does not belong to your company or does not exist''), d)"
proof -
  have "q_sucursal (ac_sucursal_id p) (id_empresa (empresa u)) d = []"
    using assms by (auto simp: q_sucursal_def filter_empty_conv)
  then show ?thesis by (simp add: create_almacen_def scalar_one_or_none_def)
qed

text \<open>Company 1 asks for a warehouse at branch 2, which company 2 owns.\<close>

theorem create_almacen_foreign_sucursal_witness:
  "\<not> (\<exists>s\<in>set (sucursales store0). id_sucursal s = ac_sucursal_id (new_warehouse 2)
                 \<and> s_empresas_id_empresa s = id_empresa (empresa user1))
   \<and> create_almacen 3 200 (new_warehouse 2) user1 store0 =
     (Inl (HTTPException HTTP_400_BAD_REQUEST
             ''Sucursal does not belong to your company or does not exist''), store0)"
proof -
  have h: "\<not> (\<exists>s\<in>set (sucursales store0). id_sucursal s = ac_sucursal_id (new_warehouse 2)
                 \<and> s_empresas_id_empresa s = id_empresa (empresa user1))"
    by (simp add: store_defs new_warehouse_def)
  from h create_almacen_foreign_sucursal [OF h] show ?thesis by simp
qed

section \<open>Creating a branch\<close>

text \<open>
  Claim C3. \<open>create_sucursal\<close> does not read \<open>almacen_id\<close>: outcome and store are
  the same whatever the field holds, and the link table is never touched. With a key the
  branch table does not hold yet, exactly one branch row is appended, built from the
  other fields of the body and the caller's company, and the response is made from that
  row; with a key already taken the INSERT is refused and nothing is stored.
\<close>

theorem create_sucursal_ignores_almacen_id:
  "create_sucursal n t (p\<lparr>sc_almacen_id := x\<rparr>) u d = create_sucursal n t p u d
   \<and> sucursales_almacenes (snd (create_sucursal n t p u d)) = sucursales_almacenes d
   \<and> (n \<notin> set (map id_sucursal (sucursales d)) \<longrightarrow>
        (let row = \<lparr>id_sucursal = n, s_nombre = sc_nombre p, direccion = sc_direccion p,
                    telefono = sc_telefono p,
                    s_estado = (case sc_estado p of Some b \<Rightarrow> b | None \<Rightarrow> True),
                    s_fecha_creacion = t, s_empresas_id_empresa = id_empresa (empresa u)\<rparr>
         in create_sucursal n t p u d =
              (Inr (SucursalResponse_of row), d\<lparr>sucursales := sucursales d @ [row]\<rparr>)))
   \<and> (n \<in> set (map id_sucursal (sucursales d)) \<longrightarrow>
        create_sucursal n t p u d = (Inl IntegrityError, d))"
proof (intro conjI impI)
  show "create_sucursal n t (p\<lparr>sc_almacen_id := x\<rparr>) u d = create_sucursal n t p u d"
    by (simp add: create_sucursal_def)
  show "sucursales_almacenes (snd (create_sucursal n t p u d)) = sucursales_almacenes d"
    by (simp add: create_sucursal_def insert_sucursal_def Let_def)
next
  assume "n \<notin> set (map id_sucursal (sucursales d))"
  then show "let row = \<lparr>id_sucursal = n, s_nombre = sc_nombre p, direccion = sc_direccion p,
                    telefono = sc_telefono p,
                    s_estado = (case sc_estado p of Some b \<Rightarrow> b | None \<Rightarrow> True),
                    s_fecha_creacion = t, s_empresas_id_empresa = id_empresa (empresa u)\<rparr>
         in create_sucursal n t p u d =
              (Inr (SucursalResponse_of row), d\<lparr>sucursales := sucursales d @ [row]\<rparr>)"
    by (simp add: create_sucursal_def insert_sucursal_def Let_def)
next
  assume "n \<in> set (map id_sucursal (sucursales d))"
  then show "create_sucursal n t p u d = (Inl IntegrityError, d)"
    by (simp add: create_sucursal_def insert_sucursal_def Let_def)
qed

text \<open>
  Company 1 creates branch 3, once naming warehouse 2 (of company 2) and once naming no
  warehouse: same outcome, the links as before, one more branch.
\<close>

theorem create_sucursal_ignores_almacen_id_witness:
  "3 \<notin> set (map id_sucursal (sucursales store0))
   \<and> create_sucursal 3 300 (new_branch (Some 2)) user1 store0
       = create_sucursal 3 300 (new_branch None) user1 store0
   \<and> sucursales_almacenes (snd (create_sucursal 3 300 (new_branch (Some 2)) user1 store0))
       = sucursales_almacenes store0
   \<and> map id_sucursal (sucursales (snd (create_sucursal 3 300 (new_branch (Some 2)) user1 store0)))
       = [1, 2, 3]"
proof -
  have f: "3 \<notin> set (map id_sucursal (sucursales store0))"
    by (simp add: store_defs)
  have e: "(new_branch None)\<lparr>sc_almacen_id := Some 2\<rparr> = new_branch (Some 2)"
    by (simp add: new_branch_def)
  have m: "map id_sucursal (sucursales store0) = [1, 2]"
    by (simp add: store_defs)
  from create_sucursal_ignores_almacen_id
         [where n = 3 and t = 300 and p = "new_branch None" and x = "Some 2"
            and u = user1 and d = store0] f e m
  show ?thesis by (simp add: Let_def)
qed

section \<open>Lookups before and after an UPDATE\<close>

lemmas handler_defs = q_sucursal_def q_almacen_def scalar_one_or_none_def
  update_sucursal_row_def update_almacen_row_def

lemma filter_singleton_mem: "filter P xs = [s] \<Longrightarrow> s \<in> set xs \<and> P s"
proof -
  assume "filter P xs = [s]"
  then have "s \<in> set (filter P xs)" by simp
  then show ?thesis by simp
qed

lemma scalar_one_or_none_single: "scalar_one_or_none [s] = Inr (Some s)"
  by (simp add: scalar_one_or_none_def)

lemma q_sucursal_single:
  "q_sucursal i c d = [s]
   \<Longrightarrow> s \<in> set (sucursales d) \<and> id_sucursal s = i \<and> s_empresas_id_empresa s = c"
  unfolding q_sucursal_def by (drule filter_singleton_mem) simp

lemma q_almacen_single:
  "q_almacen i c d = [a]
   \<Longrightarrow> a \<in> set (almacenes d) \<and> id_almacen a = i \<and> a_empresas_id_empresa a = c"
  unfolding q_almacen_def by (drule filter_singleton_mem) simp

lemma distinct_map_key: "distinct (map f xs) \<Longrightarrow> s \<in> set xs \<Longrightarrow> x \<in> set xs \<Longrightarrow> f x = f s \<Longrightarrow> x = s"
  by (meson distinct_map inj_onD)

lemma filter_replace_none:
  "filter P xs = [] \<Longrightarrow> P s \<Longrightarrow> \<forall>x\<in>set xs. f x = f s \<longrightarrow> x = s
   \<Longrightarrow> filter P (map (\<lambda>x. if f x = f s then s' else x) xs) = []"
  by (induction xs) (auto split: if_splits)

lemma filter_replace_one:
  "filter P xs = [s] \<Longrightarrow> P s' \<Longrightarrow> \<forall>x\<in>set xs. f x = f s \<longrightarrow> x = s
   \<Longrightarrow> filter P (map (\<lambda>x. if f x = f s then s' else x) xs) = [s']"
proof (induction xs)
  case Nil
  then show ?case by simp
next
  case (Cons x xs)
  from Cons.prems(1) have Ps: "P s" using filter_singleton_mem by fastforce
  show ?case
  proof (cases "P x")
    case True
    with Cons.prems(1) have xs: "x = s" and e: "filter P xs = []" by auto
    from Cons.prems(3) have "\<forall>y\<in>set xs. f y = f s \<longrightarrow> y = s" by simp
    from filter_replace_none [OF e Ps this, of s'] xs Cons.prems(2) show ?thesis by simp
  next
    case False
    with Cons.prems(1) have e: "filter P xs = [s]" by simp
    from False Ps Cons.prems(3) have "f x \<noteq> f s" by auto
    moreover from Cons.prems(3) have "\<forall>y\<in>set xs. f y = f s \<longrightarrow> y = s" by simp
    ultimately show ?thesis using Cons.IH [OF e Cons.prems(2)] False by simp
  qed
qed

lemma q_sucursal_update:
  assumes pk: "distinct (map id_sucursal (sucursales d))"
    and q: "q_sucursal i c d = [s]"
    and s': "id_sucursal s' = id_sucursal s" "s_empresas_id_empresa s' = s_empresas_id_empresa s"
  shows "q_sucursal i c (update_sucursal_row s' d) = [s']"
proof -
  from q_sucursal_single [OF q] have m: "s \<in> set (sucursales d)" "id_sucursal s = i"
    "s_empresas_id_empresa s = c" by simp_all
  have u: "\<forall>x\<in>set (sucursales d). id_sucursal x = id_sucursal s \<longrightarrow> x = s"
    using distinct_map_key [OF pk m(1)] by blast
  have "filter (\<lambda>x. id_sucursal x = i \<and> s_empresas_id_empresa x = c)
          (map (\<lambda>x. if id_sucursal x = id_sucursal s then s' else x) (sucursales d)) = [s']"
    using q m s' by (intro filter_replace_one [OF _ _ u]) (simp_all add: q_sucursal_def)
  then show ?thesis by (simp add: q_sucursal_def update_sucursal_row_def s')
qed

lemma q_almacen_update:
  assumes pk: "distinct (map id_almacen (almacenes d))"
    and q: "q_almacen i c d = [a]"
    and a': "id_almacen a' = id_almacen a" "a_empresas_id_empresa a' = a_empresas_id_empresa a"
  shows "q_almacen i c (update_almacen_row a' d) = [a']"
proof -
  from q_almacen_single [OF q] have m: "a \<in> set (almacenes d)" "id_almacen a = i"
    "a_empresas_id_empresa a = c" by simp_all
  have u: "\<forall>x\<in>set (almacenes d). id_almacen x = id_almacen a \<longrightarrow> x = a"
    using distinct_map_key [OF pk m(1)] by blast
  have "filter (\<lambda>x. id_almacen x = i \<and> a_empresas_id_empresa x = c)
          (map (\<lambda>x. if id_almacen x = id_almacen a then a' else x) (almacenes d)) = [a']"
    using q m a' by (intro filter_replace_one [OF _ _ u]) (simp_all add: q_almacen_def)
  then show ?thesis by (simp add: q_almacen_def update_almacen_row_def a')
qed

lemma update_sucursal_row_idem:
  "update_sucursal_row s' (update_sucursal_row s' d) = update_sucursal_row s' d"
  by (simp add: update_sucursal_row_def)

lemma update_almacen_row_idem:
  "update_almacen_row a' (update_almacen_row a' d) = update_almacen_row a' d"
  by (simp add: update_almacen_row_def)

lemma delete_sucursal_ok:
  "delete_sucursal i u d = (Inr NoContent, d') \<longleftrightarrow>
     (\<exists>s. q_sucursal i (id_empresa (empresa u)) d = [s]
          \<and> d' = update_sucursal_row (s\<lparr>s_estado := False\<rparr>) d)"
  by (auto simp: delete_sucursal_def scalar_one_or_none_Some scalar_one_or_none_None
      scalar_one_or_none_single split: sum.splits option.splits)

lemma delete_almacen_ok:
  "delete_almacen i u d = (Inr NoContent, d') \<longleftrightarrow>
     (\<exists>a. q_almacen i (id_empresa (empresa u)) d = [a]
          \<and> d' = update_almacen_row (a\<lparr>a_estado := False\<rparr>) d)"
  by (auto simp: delete_almacen_def scalar_one_or_none_Some scalar_one_or_none_None
      scalar_one_or_none_single split: sum.splits option.splits)

lemma map_id_update_sucursal_row:
  "map id_sucursal (sucursales (update_sucursal_row s' d)) = map id_sucursal (sucursales d)"
  by (simp add: update_sucursal_row_def comp_def)

lemma map_id_update_almacen_row:
  "map id_almacen (almacenes (update_almacen_row a' d)) = map id_almacen (almacenes d)"
  by (simp add: update_almacen_row_def comp_def)

lemma get_sucursal_single:
  "q_sucursal i (id_empresa (empresa u)) d = [s] \<Longrightarrow> get_sucursal i u d = Inr (SucursalResponse_of s)"
  by (simp add: get_sucursal_def scalar_one_or_none_single)

lemma get_almacen_single:
  "q_almacen i (id_empresa (empresa u)) d = [a] \<Longrightarrow> get_almacen i u d = Inr (AlmacenResponse_of a)"
  by (simp add: get_almacen_def scalar_one_or_none_single)

lemma map_replace_by_key:
  "distinct (map f xs) \<Longrightarrow> s \<in> set xs
   \<Longrightarrow> map (\<lambda>x. if f x = f s then s' else x) xs = map (\<lambda>x. if x = s then s' else x) xs"
  by (rule map_cong [OF refl]) (auto dest: distinct_map_key)

lemma update_sucursal_404:
  assumes "\<not> (\<exists>s\<in>set (sucursales d). id_sucursal s = i
                 \<and> s_empresas_id_empresa s = id_empresa (empresa u))"
  shows "update_sucursal i p u d = (Inl (HTTPException HTTP_404_NOT_FOUND ''Branch not found''), d)"
proof -
  have "q_sucursal i (id_empresa (empresa u)) d = []"
    using assms by (auto simp: q_sucursal_def filter_empty_conv)
  then show ?thesis by (simp add: update_sucursal_def scalar_one_or_none_def)
qed

lemma update_almacen_404:
  assumes "\<not> (\<exists>a\<in>set (almacenes d). id_almacen a = i
                 \<and> a_empresas_id_empresa a = id_empresa (empresa u))"
  shows "update_almacen i p u d = (Inl (HTTPException HTTP_404_NOT_FOUND ''Warehouse not found''), d)"
proof -
  have "q_almacen i (id_empresa (empresa u)) d = []"
    using assms by (auto simp: q_almacen_def filter_empty_conv)
  then show ?thesis by (simp add: update_almacen_def scalar_one_or_none_def)
qed

lemma update_sucursal_ok:
  assumes "update_sucursal i p u d = (Inr r, d')"
  obtains s where "q_sucursal i (id_empresa (empresa u)) d = [s]"
    and "su_nombre p \<noteq> Some None" "su_direccion p \<noteq> Some None" "su_estado p \<noteq> Some None"
    and "r = SucursalResponse_of
               (s\<lparr>s_nombre := setattr_required (su_nombre p) (s_nombre s),
                  direccion := setattr_required (su_direccion p) (direccion s),
                  telefono := setattr_nullable (su_telefono p) (telefono s),
                  s_estado := setattr_required (su_estado p) (s_estado s)\<rparr>)"
    and "d' = update_sucursal_row
               (s\<lparr>s_nombre := setattr_required (su_nombre p) (s_nombre s),
                  direccion := setattr_required (su_direccion p) (direccion s),
                  telefono := setattr_nullable (su_telefono p) (telefono s),
                  s_estado := setattr_required (su_estado p) (s_estado s)\<rparr>) d"
  using assms
  by (auto simp: update_sucursal_def scalar_one_or_none_Some Let_def
      split: sum.splits option.splits if_splits)

lemma update_almacen_ok:
  assumes "update_almacen i p u d = (Inr r, d')"
  obtains a where "q_almacen i (id_empresa (empresa u)) d = [a]"
    and "au_nombre p \<noteq> Some None" "au_es_principal p \<noteq> Some None" "au_estado p \<noteq> Some None"
    and "r = AlmacenResponse_of
               (a\<lparr>a_nombre := setattr_required (au_nombre p) (a_nombre a),
                  descripcion := setattr_nullable (au_descripcion p) (descripcion a),
                  es_principal := setattr_required (au_es_principal p) (es_principal a),
                  a_estado := setattr_required (au_estado p) (a_estado a)\<rparr>)"
    and "d' = update_almacen_row
               (a\<lparr>a_nombre := setattr_required (au_nombre p) (a_nombre a),
                  descripcion := setattr_nullable (au_descripcion p) (descripcion a),
                  es_principal := setattr_required (au_es_principal p) (es_principal a),
                  a_estado := setattr_required (au_estado p) (a_estado a)\<rparr>) d"
  using assms
  by (auto simp: update_almacen_def scalar_one_or_none_Some Let_def
      split: sum.splits option.splits if_splits)

section \<open>Deleting twice\<close>

text \<open>
  Claim C6 says the second delete of the same branch answers 404. The handler looks the
  row up by id and company only, whatever \<open>estado\<close> holds, so the second delete finds
  the row again. In the example store both deletes of branch 1 by company 1 answer 204.
\<close>

theorem delete_twice_counterexample:
  "fst (delete_sucursal 1 user1 store0) = Inr NoContent
   \<and> fst (delete_sucursal 1 user1 (snd (delete_sucursal 1 user1 store0))) = Inr NoContent
   \<and> fst (delete_sucursal 1 user1 (snd (delete_sucursal 1 user1 store0)))
       \<noteq> Inl (HTTPException HTTP_404_NOT_FOUND ''Branch not found'')"
  by (simp add: delete_sucursal_def handler_defs store_defs)

text \<open>
  Claim C6 as amended: delete is idempotent. In a store whose ids are unique, when a
  delete of a branch (or of a warehouse) succeeds, the same delete on the resulting store
  succeeds again and leaves that store as it is.
\<close>

theorem delete_twice_succeeds:
  assumes "primary_keys d"
  shows "(delete_sucursal i u d = (Inr NoContent, d') \<longrightarrow>
            delete_sucursal i u d' = (Inr NoContent, d'))
       \<and> (delete_almacen j u d = (Inr NoContent, d'') \<longrightarrow>
            delete_almacen j u d'' = (Inr NoContent, d''))"
proof (intro conjI impI)
  assume "delete_sucursal i u d = (Inr NoContent, d')"
  then obtain s where q: "q_sucursal i (id_empresa (empresa u)) d = [s]"
    and d': "d' = update_sucursal_row (s\<lparr>s_estado := False\<rparr>) d"
    unfolding delete_sucursal_ok by blast
  from assms have pk: "distinct (map id_sucursal (sucursales d))" by (simp add: primary_keys_def)
  have "q_sucursal i (id_empresa (empresa u)) d' = [s\<lparr>s_estado := False\<rparr>]"
    unfolding d' by (rule q_sucursal_update [OF pk q]) simp_all
  then show "delete_sucursal i u d' = (Inr NoContent, d')"
    unfolding delete_sucursal_ok by (simp add: d' update_sucursal_row_idem)
next
  assume "delete_almacen j u d = (Inr NoContent, d'')"
  then obtain a where q: "q_almacen j (id_empresa (empresa u)) d = [a]"
    and d': "d'' = update_almacen_row (a\<lparr>a_estado := False\<rparr>) d"
    unfolding delete_almacen_ok by blast
  from assms have pk: "distinct (map id_almacen (almacenes d))" by (simp add: primary_keys_def)
  have "q_almacen j (id_empresa (empresa u)) d'' = [a\<lparr>a_estado := False\<rparr>]"
    unfolding d' by (rule q_almacen_update [OF pk q]) simp_all
  then show "delete_almacen j u d'' = (Inr NoContent, d'')"
    unfolding delete_almacen_ok by (simp add: d' update_almacen_row_idem)
qed

theorem delete_twice_succeeds_witness:
  "primary_keys store0
   \<and> delete_sucursal 1 user1 store0 = (Inr NoContent, snd (delete_sucursal 1 user1 store0))
   \<and> delete_sucursal 1 user1 (snd (delete_sucursal 1 user1 store0))
       = (Inr NoContent, snd (delete_sucursal 1 user1 store0))
   \<and> delete_almacen 1 user1 store0 = (Inr NoContent, snd (delete_almacen 1 user1 store0))
   \<and> delete_almacen 1 user1 (snd (delete_almacen 1 user1 store0))
       = (Inr NoContent, snd (delete_almacen 1 user1 store0))"
proof -
  have pk: "primary_keys store0" by (simp add: primary_keys_def store_defs)
  have a: "delete_sucursal 1 user1 store0 = (Inr NoContent, snd (delete_sucursal 1 user1 store0))"
    by (simp add: delete_sucursal_def handler_defs store_defs)
  have b: "delete_almacen 1 user1 store0 = (Inr NoContent, snd (delete_almacen 1 user1 store0))"
    by (simp add: delete_almacen_def handler_defs store_defs)
  from delete_twice_succeeds [OF pk, of 1 user1 "snd (delete_sucursal 1 user1 store0)"
         1 "snd (delete_almacen 1 user1 store0)"] pk a b
  show ?thesis by simp
qed

section \<open>Soft-deleted rows stay retrievable\<close>

text \<open>
  Claim C7. In a store whose ids are unique, after a successful delete of a branch the
  table holds the same ids as before, the deleted row is still stored with \<open>estado\<close>
  false and all its other fields as they were, and \<open>get\<close> for the same id by any caller
  of the same company answers with that row. The same holds for a warehouse.
\<close>

theorem soft_deleted_still_retrievable:
  assumes "primary_keys d" and "id_empresa (empresa u') = id_empresa (empresa u)"
  shows "(delete_sucursal i u d = (Inr NoContent, d') \<longrightarrow>
           (\<exists>s. s \<in> set (sucursales d) \<and> id_sucursal s = i
               \<and> s_empresas_id_empresa s = id_empresa (empresa u)
               \<and> s\<lparr>s_estado := False\<rparr> \<in> set (sucursales d')
               \<and> map id_sucursal (sucursales d') = map id_sucursal (sucursales d)
               \<and> get_sucursal i u' d' = Inr (SucursalResponse_of (s\<lparr>s_estado := False\<rparr>))))
       \<and> (delete_almacen j u d = (Inr NoContent, d'') \<longrightarrow>
           (\<exists>a. a \<in> set (almacenes d) \<and> id_almacen a = j
               \<and> a_empresas_id_empresa a = id_empresa (empresa u)
               \<and> a\<lparr>a_estado := False\<rparr> \<in> set (almacenes d'')
               \<and> map id_almacen (almacenes d'') = map id_almacen (almacenes d)
               \<and> get_almacen j u' d'' = Inr (AlmacenResponse_of (a\<lparr>a_estado := False\<rparr>))))"
proof (intro conjI impI)
  assume "delete_sucursal i u d = (Inr NoContent, d')"
  then obtain s where q: "q_sucursal i (id_empresa (empresa u)) d = [s]"
    and d': "d' = update_sucursal_row (s\<lparr>s_estado := False\<rparr>) d"
    unfolding delete_sucursal_ok by blast
  from assms have pk: "distinct (map id_sucursal (sucursales d))" by (simp add: primary_keys_def)
  have q': "q_sucursal i (id_empresa (empresa u')) d' = [s\<lparr>s_estado := False\<rparr>]"
    unfolding d' assms(2) by (rule q_sucursal_update [OF pk q]) simp_all
  from q_sucursal_single [OF q] q_sucursal_single [OF q'] get_sucursal_single [OF q']
  show "\<exists>s. s \<in> set (sucursales d) \<and> id_sucursal s = i
               \<and> s_empresas_id_empresa s = id_empresa (empresa u)
               \<and> s\<lparr>s_estado := False\<rparr> \<in> set (sucursales d')
               \<and> map id_sucursal (sucursales d') = map id_sucursal (sucursales d)
               \<and> get_sucursal i u' d' = Inr (SucursalResponse_of (s\<lparr>s_estado := False\<rparr>))"
    by (intro exI [of _ s]) (simp add: d' map_id_update_sucursal_row)
next
  assume "delete_almacen j u d = (Inr NoContent, d'')"
  then obtain a where q: "q_almacen j (id_empresa (empresa u)) d = [a]"
    and d': "d'' = update_almacen_row (a\<lparr>a_estado := False\<rparr>) d"
    unfolding delete_almacen_ok by blast
  from assms have pk: "distinct (map id_almacen (almacenes d))" by (simp add: primary_keys_def)
  have q': "q_almacen j (id_empresa (empresa u')) d'' = [a\<lparr>a_estado := False\<rparr>]"
    unfolding d' assms(2) by (rule q_almacen_update [OF pk q]) simp_all
  from q_almacen_single [OF q] q_almacen_single [OF q'] get_almacen_single [OF q']
  show "\<exists>a. a \<in> set (almacenes d) \<and> id_almacen a = j
               \<and> a_empresas_id_empresa a = id_empresa (empresa u)
               \<and> a\<lparr>a_estado := False\<rparr> \<in> set (almacenes d'')
               \<and> map id_almacen (almacenes d'') = map id_almacen (almacenes d)
               \<and> get_almacen j u' d'' = Inr (AlmacenResponse_of (a\<lparr>a_estado := False\<rparr>))"
    by (intro exI [of _ a]) (simp add: d' map_id_update_almacen_row)
qed

theorem soft_deleted_still_retrievable_witness:
  "primary_keys store0
   \<and> delete_sucursal 1 user1 store0 = (Inr NoContent, snd (delete_sucursal 1 user1 store0))
   \<and> delete_almacen 1 user1 store0 = (Inr NoContent, snd (delete_almacen 1 user1 store0))
   \<and> get_sucursal 1 user1 (snd (delete_sucursal 1 user1 store0))
        = Inr (SucursalResponse_of (branch1\<lparr>s_estado := False\<rparr>))
   \<and> get_almacen 1 user1 (snd (delete_almacen 1 user1 store0))
        = Inr (AlmacenResponse_of (warehouse1\<lparr>a_estado := False\<rparr>))
   \<and> (\<exists>s. s \<in> set (sucursales store0) \<and> id_sucursal s = 1
         \<and> s\<lparr>s_estado := False\<rparr> \<in> set (sucursales (snd (delete_sucursal 1 user1 store0)))
         \<and> get_sucursal 1 user1 (snd (delete_sucursal 1 user1 store0))
              = Inr (SucursalResponse_of (s\<lparr>s_estado := False\<rparr>)))"
proof -
  have pk: "primary_keys store0" by (simp add: primary_keys_def store_defs)
  have a: "delete_sucursal 1 user1 store0 = (Inr NoContent, snd (delete_sucursal 1 user1 store0))"
    by (simp add: delete_sucursal_def handler_defs store_defs)
  have b: "delete_almacen 1 user1 store0 = (Inr NoContent, snd (delete_almacen 1 user1 store0))"
    by (simp add: delete_almacen_def handler_defs store_defs)
  have c: "get_sucursal 1 user1 (snd (delete_sucursal 1 user1 store0))
        = Inr (SucursalResponse_of (branch1\<lparr>s_estado := False\<rparr>))"
    by (simp add: get_sucursal_def delete_sucursal_def handler_defs store_defs)
  have e: "get_almacen 1 user1 (snd (delete_almacen 1 user1 store0))
        = Inr (AlmacenResponse_of (warehouse1\<lparr>a_estado := False\<rparr>))"
    by (simp add: get_almacen_def delete_almacen_def handler_defs store_defs)
  from soft_deleted_still_retrievable [OF pk refl, of 1 user1
         "snd (delete_sucursal 1 user1 store0)" 1 "snd (delete_almacen 1 user1 store0)"] a
  have "\<exists>s. s \<in> set (sucursales store0) \<and> id_sucursal s = 1
         \<and> s\<lparr>s_estado := False\<rparr> \<in> set (sucursales (snd (delete_sucursal 1 user1 store0)))
         \<and> get_sucursal 1 user1 (snd (delete_sucursal 1 user1 store0))
              = Inr (SucursalResponse_of (s\<lparr>s_estado := False\<rparr>))"
    by blast
  with pk a b c e show ?thesis by blast
qed

section \<open>Partial update\<close>

lemma filter_unique_key:
  "distinct (map f xs) \<Longrightarrow> s \<in> set xs \<Longrightarrow> P s \<Longrightarrow> \<forall>x. P x \<longrightarrow> f x = f s
   \<Longrightarrow> filter P xs = [s]"
proof (induction xs)
  case Nil
  then show ?case by simp
next
  case (Cons x xs)
  show ?case
  proof (cases "x = s")
    case True
    from Cons.prems(1) True have "f s \<notin> f ` set xs" by simp
    have "\<not> P y" if "y \<in> set xs" for y
    proof
      assume "P y"
      with Cons.prems(4) have "f y = f s" by simp
      with that \<open>f s \<notin> f ` set xs\<close> show False by (metis imageI)
    qed
    then have "filter P xs = []" by (simp add: filter_empty_conv)
    with True Cons.prems(3) show ?thesis by simp
  next
    case False
    with Cons.prems(2) have m: "s \<in> set xs" by simp
    then have "f s \<in> f ` set xs" by (rule imageI)
    with Cons.prems(1) have "f x \<noteq> f s" by auto
    with Cons.prems(4) have "\<not> P x" by auto
    moreover from Cons.prems(1) have "distinct (map f xs)" by simp
    ultimately show ?thesis using Cons.IH [OF _ m Cons.prems(3,4)] by simp
  qed
qed

lemma q_sucursal_unique:
  assumes "primary_keys d" and "s \<in> set (sucursales d)"
  shows "q_sucursal (id_sucursal s) (s_empresas_id_empresa s) d = [s]"
proof -
  from assms(1) have "distinct (map id_sucursal (sucursales d))" by (simp add: primary_keys_def)
  from filter_unique_key [OF this assms(2),
      of "\<lambda>x. id_sucursal x = id_sucursal s \<and> s_empresas_id_empresa x = s_empresas_id_empresa s"]
  show ?thesis by (simp add: q_sucursal_def)
qed

lemma q_almacen_unique:
  assumes "primary_keys d" and "a \<in> set (almacenes d)"
  shows "q_almacen (id_almacen a) (a_empresas_id_empresa a) d = [a]"
proof -
  from assms(1) have "distinct (map id_almacen (almacenes d))" by (simp add: primary_keys_def)
  from filter_unique_key [OF this assms(2),
      of "\<lambda>x. id_almacen x = id_almacen a \<and> a_empresas_id_empresa x = a_empresas_id_empresa a"]
  show ?thesis by (simp add: q_almacen_def)
qed

lemma map_replace_self: "map (\<lambda>x. if x = s then s else x) xs = xs"
  by (induction xs) simp_all

lemma update_sucursal_outcome:
  assumes pk: "primary_keys d" and m: "s \<in> set (sucursales d)"
    and i: "id_sucursal s = i" and c: "s_empresas_id_empresa s = id_empresa (empresa u)"
  shows "update_sucursal i p u d =
     (if su_nombre p = Some None \<or> su_direccion p = Some None \<or> su_estado p = Some None
      then (Inl IntegrityError, d)
      else (let s' = s\<lparr>s_nombre := setattr_required (su_nombre p) (s_nombre s),
                        direccion := setattr_required (su_direccion p) (direccion s),
                        telefono := setattr_nullable (su_telefono p) (telefono s),
                        s_estado := setattr_required (su_estado p) (s_estado s)\<rparr>
            in (Inr (SucursalResponse_of s'),
                d\<lparr>sucursales := map (\<lambda>x. if x = s then s' else x) (sucursales d)\<rparr>)))"
proof -
  from q_sucursal_unique [OF pk m] i c
  have q: "q_sucursal i (id_empresa (empresa u)) d = [s]" by simp
  from pk have ds: "distinct (map id_sucursal (sucursales d))" by (simp add: primary_keys_def)
  have "update_sucursal_row s' d
          = d\<lparr>sucursales := map (\<lambda>x. if x = s then s' else x) (sucursales d)\<rparr>"
    if "id_sucursal s' = id_sucursal s" for s'
    using map_replace_by_key [OF ds m, of s'] that by (simp add: update_sucursal_row_def)
  then show ?thesis
    by (simp add: update_sucursal_def q scalar_one_or_none_single Let_def)
qed

lemma update_almacen_outcome:
  assumes pk: "primary_keys d" and m: "a \<in> set (almacenes d)"
    and i: "id_almacen a = i" and c: "a_empresas_id_empresa a = id_empresa (empresa u)"
  shows "update_almacen i p u d =
     (if au_nombre p = Some None \<or> au_es_principal p = Some None \<or> au_estado p = Some None
      then (Inl IntegrityError, d)
      else (let a' = a\<lparr>a_nombre := setattr_required (au_nombre p) (a_nombre a),
                        descripcion := setattr_nullable (au_descripcion p) (descripcion a),
                        es_principal := setattr_required (au_es_principal p) (es_principal a),
                        a_estado := setattr_required (au_estado p) (a_estado a)\<rparr>
            in (Inr (AlmacenResponse_of a'),
                d\<lparr>almacenes := map (\<lambda>x. if x = a then a' else x) (almacenes d)\<rparr>)))"
proof -
  from q_almacen_unique [OF pk m] i c
  have q: "q_almacen i (id_empresa (empresa u)) d = [a]" by simp
  from pk have ds: "distinct (map id_almacen (almacenes d))" by (simp add: primary_keys_def)
  have "update_almacen_row a' d
          = d\<lparr>almacenes := map (\<lambda>x. if x = a then a' else x) (almacenes d)\<rparr>"
    if "id_almacen a' = id_almacen a" for a'
    using map_replace_by_key [OF ds m, of a'] that by (simp add: update_almacen_row_def)
  then show ?thesis
    by (simp add: update_almacen_def q scalar_one_or_none_single Let_def)
qed

lemma update_sucursal_existing:
  assumes pk: "primary_keys d" and m: "s \<in> set (sucursales d)"
    and i: "id_sucursal s = i" and c: "s_empresas_id_empresa s = id_empresa (empresa u)"
  shows "\<exists>s'. snd (update_sucursal i p u d)
                 = d\<lparr>sucursales := map (\<lambda>x. if x = s then s' else x) (sucursales d)\<rparr>
            \<and> id_sucursal s' = id_sucursal s
            \<and> s_fecha_creacion s' = s_fecha_creacion s
            \<and> s_empresas_id_empresa s' = s_empresas_id_empresa s
            \<and> (su_nombre p = None \<longrightarrow> s_nombre s' = s_nombre s)
            \<and> (su_direccion p = None \<longrightarrow> direccion s' = direccion s)
            \<and> (su_telefono p = None \<longrightarrow> telefono s' = telefono s)
            \<and> (su_estado p = None \<longrightarrow> s_estado s' = s_estado s)
            \<and> (fst (update_sucursal i p u d) = Inr (SucursalResponse_of s')
                  \<and> (\<forall>v. su_nombre p = Some v \<longrightarrow> v = Some (s_nombre s'))
                  \<and> (\<forall>v. su_direccion p = Some v \<longrightarrow> v = Some (direccion s'))
                  \<and> (\<forall>v. su_telefono p = Some v \<longrightarrow> v = telefono s')
                  \<and> (\<forall>v. su_estado p = Some v \<longrightarrow> v = Some (s_estado s'))
                \<or> fst (update_sucursal i p u d) = Inl IntegrityError \<and> s' = s
                  \<and> (su_nombre p = Some None \<or> su_direccion p = Some None
                       \<or> su_estado p = Some None))"
proof (cases "su_nombre p = Some None \<or> su_direccion p = Some None \<or> su_estado p = Some None")
  case True
  with update_sucursal_outcome [OF assms, of p]
  have "update_sucursal i p u d = (Inl IntegrityError, d)" by simp
  with True show ?thesis
    by (intro exI [of _ s]) (simp add: map_replace_self)
next
  case False
  let ?s' = "s\<lparr>s_nombre := setattr_required (su_nombre p) (s_nombre s),
                        direccion := setattr_required (su_direccion p) (direccion s),
                        telefono := setattr_nullable (su_telefono p) (telefono s),
                        s_estado := setattr_required (su_estado p) (s_estado s)\<rparr>"
  from False update_sucursal_outcome [OF assms, of p]
  have "update_sucursal i p u d =
          (Inr (SucursalResponse_of ?s'),
           d\<lparr>sucursales := map (\<lambda>x. if x = s then ?s' else x) (sucursales d)\<rparr>)"
    by (simp add: Let_def)
  with False show ?thesis
    by (intro exI [of _ ?s'])
       (auto simp: setattr_required_def setattr_nullable_def split: option.splits)
qed

lemma update_almacen_existing:
  assumes pk: "primary_keys d" and m: "a \<in> set (almacenes d)"
    and i: "id_almacen a = i" and c: "a_empresas_id_empresa a = id_empresa (empresa u)"
  shows "\<exists>a'. snd (update_almacen i p u d)
                 = d\<lparr>almacenes := map (\<lambda>x. if x = a then a' else x) (almacenes d)\<rparr>
            \<and> id_almacen a' = id_almacen a
            \<and> a_fecha_creacion a' = a_fecha_creacion a
            \<and> a_empresas_id_empresa a' = a_empresas_id_empresa a
            \<and> (au_nombre p = None \<longrightarrow> a_nombre a' = a_nombre a)
            \<and> (au_descripcion p = None \<longrightarrow> descripcion a' = descripcion a)
            \<and> (au_es_principal p = None \<longrightarrow> es_principal a' = es_principal a)
            \<and> (au_estado p = None \<longrightarrow> a_estado a' = a_estado a)
            \<and> (fst (update_almacen i p u d) = Inr (AlmacenResponse_of a')
                  \<and> (\<forall>v. au_nombre p = Some v \<longrightarrow> v = Some (a_nombre a'))
                  \<and> (\<forall>v. au_descripcion p = Some v \<longrightarrow> v = descripcion a')
                  \<and> (\<forall>v. au_es_principal p = Some v \<longrightarrow> v = Some (es_principal a'))
                  \<and> (\<forall>v. au_estado p = Some v \<longrightarrow> v = Some (a_estado a'))
                \<or> fst (update_almacen i p u d) = Inl IntegrityError \<and> a' = a
                  \<and> (au_nombre p = Some None \<or> au_es_principal p = Some None
                       \<or> au_estado p = Some None))"
proof (cases "au_nombre p = Some None \<or> au_es_principal p = Some None \<or> au_estado p = Some None")
  case True
  with update_almacen_outcome [OF assms, of p]
  have "update_almacen i p u d = (Inl IntegrityError, d)" by simp
  with True show ?thesis
    by (intro exI [of _ a]) (simp add: map_replace_self)
next
  case False
  let ?a' = "a\<lparr>a_nombre := setattr_required (au_nombre p) (a_nombre a),
                        descripcion := setattr_nullable (au_descripcion p) (descripcion a),
                        es_principal := setattr_required (au_es_principal p) (es_principal a),
                        a_estado := setattr_required (au_estado p) (a_estado a)\<rparr>"
  from False update_almacen_outcome [OF assms, of p]
  have "update_almacen i p u d =
          (Inr (AlmacenResponse_of ?a'),
           d\<lparr>almacenes := map (\<lambda>x. if x = a then ?a' else x) (almacenes d)\<rparr>)"
    by (simp add: Let_def)
  with False show ?thesis
    by (intro exI [of _ ?a'])
       (auto simp: setattr_required_def setattr_nullable_def split: option.splits)
qed

text \<open>
  Claim C9. For a branch: when no stored row has the id and the caller's company, the
  PATCH answers 404 and the store is unchanged. When a row \<open>s\<close> with that id belongs to
  the caller's company, in a store whose ids are unique, every PATCH leaves a store that
  differs from the old one at most in that \<open>s\<close> is replaced by a row \<open>s'\<close>: every other
  row and every other table is as before, and \<open>s'\<close> agrees with \<open>s\<close> on the id, the
  creation time, the company and every field the body does not carry. Either the PATCH
  succeeds, the response is made from \<open>s'\<close> and every field the body carries has the
  carried value; or the body carries a null for a column that takes none, the UPDATE is
  refused and \<open>s'\<close> is \<open>s\<close>, nothing changed. The same holds for a warehouse.
\<close>

theorem partial_update_frame:
  "(\<not> (\<exists>s\<in>set (sucursales d). id_sucursal s = i
           \<and> s_empresas_id_empresa s = id_empresa (empresa u)) \<longrightarrow>
      update_sucursal i p u d
        = (Inl (HTTPException HTTP_404_NOT_FOUND ''Branch not found''), d))
   \<and> (primary_keys d \<and> s \<in> set (sucursales d) \<and> id_sucursal s = i
         \<and> s_empresas_id_empresa s = id_empresa (empresa u) \<longrightarrow>
        (\<exists>s'. snd (update_sucursal i p u d)
                 = d\<lparr>sucursales := map (\<lambda>x. if x = s then s' else x) (sucursales d)\<rparr>
            \<and> id_sucursal s' = id_sucursal s
            \<and> s_fecha_creacion s' = s_fecha_creacion s
            \<and> s_empresas_id_empresa s' = s_empresas_id_empresa s
            \<and> (su_nombre p = None \<longrightarrow> s_nombre s' = s_nombre s)
            \<and> (su_direccion p = None \<longrightarrow> direccion s' = direccion s)
            \<and> (su_telefono p = None \<longrightarrow> telefono s' = telefono s)
            \<and> (su_estado p = None \<longrightarrow> s_estado s' = s_estado s)
            \<and> (fst (update_sucursal i p u d) = Inr (SucursalResponse_of s')
                  \<and> (\<forall>v. su_nombre p = Some v \<longrightarrow> v = Some (s_nombre s'))
                  \<and> (\<forall>v. su_direccion p = Some v \<longrightarrow> v = Some (direccion s'))
                  \<and> (\<forall>v. su_telefono p = Some v \<longrightarrow> v = telefono s')
                  \<and> (\<forall>v. su_estado p = Some v \<longrightarrow> v = Some (s_estado s'))
                \<or> fst (update_sucursal i p u d) = Inl IntegrityError \<and> s' = s
                  \<and> (su_nombre p = Some None \<or> su_direccion p = Some None
                       \<or> su_estado p = Some None))))
   \<and> (\<not> (\<exists>a\<in>set (almacenes d). id_almacen a = j
           \<and> a_empresas_id_empresa a = id_empresa (empresa u)) \<longrightarrow>
      update_almacen j pa u d
        = (Inl (HTTPException HTTP_404_NOT_FOUND ''Warehouse not found''), d))
   \<and> (primary_keys d \<and> a \<in> set (almacenes d) \<and> id_almacen a = j
         \<and> a_empresas_id_empresa a = id_empresa (empresa u) \<longrightarrow>
        (\<exists>a'. snd (update_almacen j pa u d)
                 = d\<lparr>almacenes := map (\<lambda>x. if x = a then a' else x) (almacenes d)\<rparr>
            \<and> id_almacen a' = id_almacen a
            \<and> a_fecha_creacion a' = a_fecha_creacion a
            \<and> a_empresas_id_empresa a' = a_empresas_id_empresa a
            \<and> (au_nombre pa = None \<longrightarrow> a_nombre a' = a_nombre a)
            \<and> (au_descripcion pa = None \<longrightarrow> descripcion a' = descripcion a)
            \<and> (au_es_principal pa = None \<longrightarrow> es_principal a' = es_principal a)
            \<and> (au_estado pa = None \<longrightarrow> a_estado a' = a_estado a)
            \<and> (fst (update_almacen j pa u d) = Inr (AlmacenResponse_of a')
                  \<and> (\<forall>v. au_nombre pa = Some v \<longrightarrow> v = Some (a_nombre a'))
                  \<and> (\<forall>v. au_descripcion pa = Some v \<longrightarrow> v = descripcion a')
                  \<and> (\<forall>v. au_es_principal pa = Some v \<longrightarrow> v = Some (es_principal a'))
                  \<and> (\<forall>v. au_estado pa = Some v \<longrightarrow> v = Some (a_estado a'))
                \<or> fst (update_almacen j pa u d) = Inl IntegrityError \<and> a' = a
                  \<and> (au_nombre pa = Some None \<or> au_es_principal pa = Some None
                       \<or> au_estado pa = Some None))))"
proof (intro conjI)
  show "\<not> (\<exists>s\<in>set (sucursales d). id_sucursal s = i
           \<and> s_empresas_id_empresa s = id_empresa (empresa u)) \<longrightarrow>
      update_sucursal i p u d
        = (Inl (HTTPException HTTP_404_NOT_FOUND ''Branch not found''), d)"
    using update_sucursal_404 [of d i u p] by blast
  show "\<not> (\<exists>a\<in>set (almacenes d). id_almacen a = j
           \<and> a_empresas_id_empresa a = id_empresa (empresa u)) \<longrightarrow>
      update_almacen j pa u d
        = (Inl (HTTPException HTTP_404_NOT_FOUND ''Warehouse not found''), d)"
    using update_almacen_404 [of d j u pa] by blast
  show "primary_keys d \<and> s \<in> set (sucursales d) \<and> id_sucursal s = i
         \<and> s_empresas_id_empresa s = id_empresa (empresa u) \<longrightarrow>
        (\<exists>s'. snd (update_sucursal i p u d)
                 = d\<lparr>sucursales := map (\<lambda>x. if x = s then s' else x) (sucursales d)\<rparr>
            \<and> id_sucursal s' = id_sucursal s
            \<and> s_fecha_creacion s' = s_fecha_creacion s
            \<and> s_empresas_id_empresa s' = s_empresas_id_empresa s
            \<and> (su_nombre p = None \<longrightarrow> s_nombre s' = s_nombre s)
            \<and> (su_direccion p = None \<longrightarrow> direccion s' = direccion s)
            \<and> (su_telefono p = None \<longrightarrow> telefono s' = telefono s)
            \<and> (su_estado p = None \<longrightarrow> s_estado s' = s_estado s)
            \<and> (fst (update_sucursal i p u d) = Inr (SucursalResponse_of s')
                  \<and> (\<forall>v. su_nombre p = Some v \<longrightarrow> v = Some (s_nombre s'))
                  \<and> (\<forall>v. su_direccion p = Some v \<longrightarrow> v = Some (direccion s'))
                  \<and> (\<forall>v. su_telefono p = Some v \<longrightarrow> v = telefono s')
                  \<and> (\<forall>v. su_estado p = Some v \<longrightarrow> v = Some (s_estado s'))
                \<or> fst (update_sucursal i p u d) = Inl IntegrityError \<and> s' = s
                  \<and> (su_nombre p = Some None \<or> su_direccion p = Some None
                       \<or> su_estado p = Some None)))"
    by (intro impI, elim conjE) (rule update_sucursal_existing)
  show "primary_keys d \<and> a \<in> set (almacenes d) \<and> id_almacen a = j
         \<and> a_empresas_id_empresa a = id_empresa (empresa u) \<longrightarrow>
        (\<exists>a'. snd (update_almacen j pa u d)
                 = d\<lparr>almacenes := map (\<lambda>x. if x = a then a' else x) (almacenes d)\<rparr>
            \<and> id_almacen a' = id_almacen a
            \<and> a_fecha_creacion a' = a_fecha_creacion a
            \<and> a_empresas_id_empresa a' = a_empresas_id_empresa a
            \<and> (au_nombre pa = None \<longrightarrow> a_nombre a' = a_nombre a)
            \<and> (au_descripcion pa = None \<longrightarrow> descripcion a' = descripcion a)
            \<and> (au_es_principal pa = None \<longrightarrow> es_principal a' = es_principal a)
            \<and> (au_estado pa = None \<longrightarrow> a_estado a' = a_estado a)
            \<and> (fst (update_almacen j pa u d) = Inr (AlmacenResponse_of a')
                  \<and> (\<forall>v. au_nombre pa = Some v \<longrightarrow> v = Some (a_nombre a'))
                  \<and> (\<forall>v. au_descripcion pa = Some v \<longrightarrow> v = descripcion a')
                  \<and> (\<forall>v. au_es_principal pa = Some v \<longrightarrow> v = Some (es_principal a'))
                  \<and> (\<forall>v. au_estado pa = Some v \<longrightarrow> v = Some (a_estado a'))
                \<or> fst (update_almacen j pa u d) = Inl IntegrityError \<and> a' = a
                  \<and> (au_nombre pa = Some None \<or> au_es_principal pa = Some None
                       \<or> au_estado pa = Some None)))"
    by (intro impI, elim conjE) (rule update_almacen_existing)
qed

text \<open>
  In the example store, for company 1: branch 2 and warehouse 2 are foreign (404),
  renaming branch 1 and warehouse 1 changes the name and nothing else, and a PATCH of
  branch 1 with a null name is refused and leaves the store as it was.
\<close>

theorem partial_update_frame_witness:
  "primary_keys store0
   \<and> branch1 \<in> set (sucursales store0) \<and> id_sucursal branch1 = 1
   \<and> s_empresas_id_empresa branch1 = id_empresa (empresa user1)
   \<and> warehouse1 \<in> set (almacenes store0) \<and> id_almacen warehouse1 = 1
   \<and> a_empresas_id_empresa warehouse1 = id_empresa (empresa user1)
   \<and> \<not> (\<exists>s\<in>set (sucursales store0). id_sucursal s = 2
           \<and> s_empresas_id_empresa s = id_empresa (empresa user1))
   \<and> update_sucursal 2 (patch_sucursal_nombre ''Sede'') user1 store0
        = (Inl (HTTPException HTTP_404_NOT_FOUND ''Branch not found''), store0)
   \<and> \<not> (\<exists>a\<in>set (almacenes store0). id_almacen a = 2
           \<and> a_empresas_id_empresa a = id_empresa (empresa user1))
   \<and> update_almacen 2 (patch_almacen_nombre ''Frio'') user1 store0
        = (Inl (HTTPException HTTP_404_NOT_FOUND ''Warehouse not found''), store0)
   \<and> update_sucursal 1 (patch_sucursal_nombre ''Sede'') user1 store0
        = (Inr (SucursalResponse_of (branch1\<lparr>s_nombre := ''Sede''\<rparr>)),
           store0\<lparr>sucursales := [branch1\<lparr>s_nombre := ''Sede''\<rparr>, branch2]\<rparr>)
   \<and> update_almacen 1 (patch_almacen_nombre ''Frio'') user1 store0
        = (Inr (AlmacenResponse_of (warehouse1\<lparr>a_nombre := ''Frio''\<rparr>)),
           store0\<lparr>almacenes := [warehouse1\<lparr>a_nombre := ''Frio''\<rparr>, warehouse2]\<rparr>)
   \<and> update_sucursal 1 patch_sucursal_null_nombre user1 store0 = (Inl IntegrityError, store0)
   \<and> (\<exists>s'. snd (update_sucursal 1 (patch_sucursal_nombre ''Sede'') user1 store0)
               = store0\<lparr>sucursales := map (\<lambda>x. if x = branch1 then s' else x)
                                           (sucursales store0)\<rparr>
         \<and> id_sucursal s' = id_sucursal branch1
         \<and> direccion s' = direccion branch1 \<and> telefono s' = telefono branch1
         \<and> s_estado s' = s_estado branch1)
   \<and> (\<exists>s'. snd (update_sucursal 1 patch_sucursal_null_nombre user1 store0)
               = store0\<lparr>sucursales := map (\<lambda>x. if x = branch1 then s' else x)
                                           (sucursales store0)\<rparr>
         \<and> telefono s' = telefono branch1 \<and> s_estado s' = s_estado branch1)"
proof -
  have pk: "primary_keys store0" by (simp add: primary_keys_def store_defs)
  have b: "branch1 \<in> set (sucursales store0)" "id_sucursal branch1 = 1"
    "s_empresas_id_empresa branch1 = id_empresa (empresa user1)"
    by (simp_all add: store_defs)
  have w: "warehouse1 \<in> set (almacenes store0)" "id_almacen warehouse1 = 1"
    "a_empresas_id_empresa warehouse1 = id_empresa (empresa user1)"
    by (simp_all add: store_defs)
  have n1: "\<not> (\<exists>s\<in>set (sucursales store0). id_sucursal s = 2
           \<and> s_empresas_id_empresa s = id_empresa (empresa user1))"
    by (simp add: store_defs)
  have n2: "\<not> (\<exists>a\<in>set (almacenes store0). id_almacen a = 2
           \<and> a_empresas_id_empresa a = id_empresa (empresa user1))"
    by (simp add: store_defs)
  have s1: "update_sucursal 1 (patch_sucursal_nombre ''Sede'') user1 store0
        = (Inr (SucursalResponse_of (branch1\<lparr>s_nombre := ''Sede''\<rparr>)),
           store0\<lparr>sucursales := [branch1\<lparr>s_nombre := ''Sede''\<rparr>, branch2]\<rparr>)"
    by (simp add: update_sucursal_def handler_defs store_defs patch_sucursal_nombre_def
        setattr_required_def setattr_nullable_def Let_def)
  have s2: "update_almacen 1 (patch_almacen_nombre ''Frio'') user1 store0
        = (Inr (AlmacenResponse_of (warehouse1\<lparr>a_nombre := ''Frio''\<rparr>)),
           store0\<lparr>almacenes := [warehouse1\<lparr>a_nombre := ''Frio''\<rparr>, warehouse2]\<rparr>)"
    by (simp add: update_almacen_def handler_defs store_defs patch_almacen_nombre_def
        setattr_required_def setattr_nullable_def Let_def)
  have s3: "update_sucursal 1 patch_sucursal_null_nombre user1 store0
        = (Inl IntegrityError, store0)"
    by (simp add: update_sucursal_def handler_defs store_defs patch_sucursal_null_nombre_def)
  have p: "su_direccion (patch_sucursal_nombre ''Sede'') = None"
    "su_telefono (patch_sucursal_nombre ''Sede'') = None"
    "su_estado (patch_sucursal_nombre ''Sede'') = None"
    "su_telefono patch_sucursal_null_nombre = None"
    "su_estado patch_sucursal_null_nombre = None"
    by (simp_all add: patch_sucursal_nombre_def patch_sucursal_null_nombre_def)
  from partial_update_frame
         [where d = store0 and u = user1 and i = 2 and j = 2
            and p = "patch_sucursal_nombre ''Sede''" and pa = "patch_almacen_nombre ''Frio''"]
       n1 n2
  have e: "update_sucursal 2 (patch_sucursal_nombre ''Sede'') user1 store0
        = (Inl (HTTPException HTTP_404_NOT_FOUND ''Branch not found''), store0)"
      "update_almacen 2 (patch_almacen_nombre ''Frio'') user1 store0
        = (Inl (HTTPException HTTP_404_NOT_FOUND ''Warehouse not found''), store0)"
    by blast+
  from partial_update_frame
         [where d = store0 and u = user1 and i = 1 and s = branch1
            and p = "patch_sucursal_nombre ''Sede''",
          THEN conjunct2, THEN conjunct1, THEN mp, OF conjI [OF pk conjI [OF b(1) conjI [OF b(2,3)]]]]
  obtain s' where f:
    "snd (update_sucursal 1 (patch_sucursal_nombre ''Sede'') user1 store0)
       = store0\<lparr>sucursales := map (\<lambda>x. if x = branch1 then s' else x) (sucursales store0)\<rparr>"
    "id_sucursal s' = id_sucursal branch1"
    "su_direccion (patch_sucursal_nombre ''Sede'') = None \<longrightarrow> direccion s' = direccion branch1"
    "su_telefono (patch_sucursal_nombre ''Sede'') = None \<longrightarrow> telefono s' = telefono branch1"
    "su_estado (patch_sucursal_nombre ''Sede'') = None \<longrightarrow> s_estado s' = s_estado branch1"
    by (elim exE conjE) (rule that; assumption)
  from f(3-5) have "direccion s' = direccion branch1" "telefono s' = telefono branch1"
    "s_estado s' = s_estado branch1" by (simp_all only: p simp_thms)
  with f(1,2)
  have x: "\<exists>s'. snd (update_sucursal 1 (patch_sucursal_nombre ''Sede'') user1 store0)
               = store0\<lparr>sucursales := map (\<lambda>x. if x = branch1 then s' else x)
                                           (sucursales store0)\<rparr>
         \<and> id_sucursal s' = id_sucursal branch1
         \<and> direccion s' = direccion branch1 \<and> telefono s' = telefono branch1
         \<and> s_estado s' = s_estado branch1"
    by (intro exI [of _ s'] conjI)
  from partial_update_frame
         [where d = store0 and u = user1 and i = 1 and s = branch1
            and p = patch_sucursal_null_nombre,
          THEN conjunct2, THEN conjunct1, THEN mp, OF conjI [OF pk conjI [OF b(1) conjI [OF b(2,3)]]]]
  obtain s'' where g:
    "snd (update_sucursal 1 patch_sucursal_null_nombre user1 store0)
       = store0\<lparr>sucursales := map (\<lambda>x. if x = branch1 then s'' else x) (sucursales store0)\<rparr>"
    "su_telefono patch_sucursal_null_nombre = None \<longrightarrow> telefono s'' = telefono branch1"
    "su_estado patch_sucursal_null_nombre = None \<longrightarrow> s_estado s'' = s_estado branch1"
    by (elim exE conjE) (rule that; assumption)
  from g(2,3) have "telefono s'' = telefono branch1" "s_estado s'' = s_estado branch1"
    by (simp_all only: p simp_thms)
  with g(1)
  have y: "\<exists>s'. snd (update_sucursal 1 patch_sucursal_null_nombre user1 store0)
               = store0\<lparr>sucursales := map (\<lambda>x. if x = branch1 then s' else x)
                                           (sucursales store0)\<rparr>
         \<and> telefono s' = telefono branch1 \<and> s_estado s' = s_estado branch1"
    by (intro exI [of _ s''] conjI)
  from pk b w n1 n2 e s1 s2 s3 x y show ?thesis by (intro conjI)
qed

lemma create_almacen_ok:
  assumes "create_almacen n t p u d = (Inr w, d')"
  obtains s where "q_sucursal (ac_sucursal_id p) (id_empresa (empresa u)) d = [s]"
    and "n \<notin> set (map id_almacen (almacenes d))"
    and "w = AlmacenResponse_of
               \<lparr>id_almacen = n, a_nombre = ac_nombre p, descripcion = ac_descripcion p,
                es_principal = ac_es_principal p,
                a_estado = (case ac_estado p of Some b \<Rightarrow> b | None \<Rightarrow> True),
                a_fecha_creacion = t, a_empresas_id_empresa = id_empresa (empresa u)\<rparr>"
    and "d' = d\<lparr>almacenes := almacenes d @
                 [\<lparr>id_almacen = n, a_nombre = ac_nombre p, descripcion = ac_descripcion p,
                   es_principal = ac_es_principal p,
                   a_estado = (case ac_estado p of Some b \<Rightarrow> b | None \<Rightarrow> True),
                   a_fecha_creacion = t, a_empresas_id_empresa = id_empresa (empresa u)\<rparr>],
               sucursales_almacenes := sucursales_almacenes d @
                 [\<lparr>sa_sucursales_id_sucursal = ac_sucursal_id p, sa_almacenes_id_almacen = n\<rparr>]\<rparr>"
  using assms
  by (auto simp: create_almacen_def scalar_one_or_none_Some Let_def insert_almacen_def
      insert_sucursal_almacen_def split: sum.splits option.splits if_splits)

section \<open>Create a warehouse, then list the warehouses of its branch\<close>

text \<open>
  Claim C10. When \<open>create_almacen\<close> succeeds with response \<open>w1\<close> for a branch that
  had no link before, the listing of the warehouses of that branch, asked by any caller
  of the same company on the resulting store, answers with the one-element list
  \<open>[w1]\<close>.
\<close>

theorem create_then_list_round_trip:
  assumes ok: "create_almacen n t p u d = (Inr w1, d')"
    and nolinks: "\<not> (\<exists>l\<in>set (sucursales_almacenes d).
                     sa_sucursales_id_sucursal l = ac_sucursal_id p)"
    and same: "id_empresa (empresa u') = id_empresa (empresa u)"
  shows "list_almacenes_de_sucursal (ac_sucursal_id p) u' d' = Inr [w1]"
proof -
  let ?a = "\<lparr>id_almacen = n, a_nombre = ac_nombre p, descripcion = ac_descripcion p,
                es_principal = ac_es_principal p,
                a_estado = (case ac_estado p of Some b \<Rightarrow> b | None \<Rightarrow> True),
                a_fecha_creacion = t, a_empresas_id_empresa = id_empresa (empresa u)\<rparr>"
  from ok obtain s where q: "q_sucursal (ac_sucursal_id p) (id_empresa (empresa u)) d = [s]"
    and fresh: "n \<notin> set (map id_almacen (almacenes d))"
    and w1: "w1 = AlmacenResponse_of ?a"
    and d': "d' = d\<lparr>almacenes := almacenes d @ [?a],
               sucursales_almacenes := sucursales_almacenes d @
                 [\<lparr>sa_sucursales_id_sucursal = ac_sucursal_id p, sa_almacenes_id_almacen = n\<rparr>]\<rparr>"
    by (rule create_almacen_ok)
  have q': "q_sucursal (ac_sucursal_id p) (id_empresa (empresa u')) d' = [s]"
    using q by (simp add: q_sucursal_def d' same)
  have l: "filter (\<lambda>sa. sa_sucursales_id_sucursal sa = ac_sucursal_id p)
             (sucursales_almacenes d) = []"
    using nolinks by (auto simp: filter_empty_conv)
  have a: "filter (\<lambda>a. id_almacen a = n \<and> a_empresas_id_empresa a = id_empresa (empresa u))
             (almacenes d) = []"
    using fresh by (auto simp: filter_empty_conv)
  have "sql_almacenes_de_sucursal (ac_sucursal_id p) (id_empresa (empresa u')) d' = [?a]"
    by (simp add: sql_almacenes_de_sucursal_def d' same l a)
  with q' show ?thesis
    by (simp add: list_almacenes_de_sucursal_def scalar_one_or_none_single w1)
qed

theorem create_then_list_round_trip_witness:
  "create_almacen 3 200 (new_warehouse 1) user1
       (store0\<lparr>sucursales_almacenes :=
                  [\<lparr>sa_sucursales_id_sucursal = 2, sa_almacenes_id_almacen = 2\<rparr>]\<rparr>)
     = (Inr \<lparr>ar_nombre = ''W'', ar_descripcion = None, ar_es_principal = False,
              ar_estado = Some True, ar_id_almacen = 3, ar_fecha_creacion = 200\<rparr>,
        snd (create_almacen 3 200 (new_warehouse 1) user1
               (store0\<lparr>sucursales_almacenes :=
                  [\<lparr>sa_sucursales_id_sucursal = 2, sa_almacenes_id_almacen = 2\<rparr>]\<rparr>)))
   \<and> \<not> (\<exists>l\<in>set (sucursales_almacenes (store0\<lparr>sucursales_almacenes :=
                  [\<lparr>sa_sucursales_id_sucursal = 2, sa_almacenes_id_almacen = 2\<rparr>]\<rparr>)).
            sa_sucursales_id_sucursal l = ac_sucursal_id (new_warehouse 1))
   \<and> list_almacenes_de_sucursal 1 user1
        (snd (create_almacen 3 200 (new_warehouse 1) user1
               (store0\<lparr>sucursales_almacenes :=
                  [\<lparr>sa_sucursales_id_sucursal = 2, sa_almacenes_id_almacen = 2\<rparr>]\<rparr>)))
     = Inr [\<lparr>ar_nombre = ''W'', ar_descripcion = None, ar_es_principal = False,
              ar_estado = Some True, ar_id_almacen = 3, ar_fecha_creacion = 200\<rparr>]"
proof -
  let ?d = "store0\<lparr>sucursales_almacenes :=
                  [\<lparr>sa_sucursales_id_sucursal = 2, sa_almacenes_id_almacen = 2\<rparr>]\<rparr>"
  let ?w = "\<lparr>ar_nombre = ''W'', ar_descripcion = None, ar_es_principal = False,
              ar_estado = Some True, ar_id_almacen = 3, ar_fecha_creacion = 200\<rparr>"
  have c: "create_almacen 3 200 (new_warehouse 1) user1 ?d
             = (Inr ?w, snd (create_almacen 3 200 (new_warehouse 1) user1 ?d))"
    by (simp add: create_almacen_def handler_defs store_defs new_warehouse_def Let_def
        insert_almacen_def insert_sucursal_almacen_def AlmacenResponse_of_def)
  have n: "\<not> (\<exists>l\<in>set (sucursales_almacenes ?d).
            sa_sucursales_id_sucursal l = ac_sucursal_id (new_warehouse 1))"
    by (simp add: new_warehouse_def)
  have k: "ac_sucursal_id (new_warehouse 1) = 1" by (simp add: new_warehouse_def)
  from create_then_list_round_trip [OF c n refl] k
  have "list_almacenes_de_sucursal 1 user1
          (snd (create_almacen 3 200 (new_warehouse 1) user1 ?d)) = Inr [?w]"
    by simp
  with c n show ?thesis by (intro conjI)
qed

section \<open>What each handler leaves untouched\<close>

lemma sucursales_assign [simp]:
  "sucursales (snd (assign_usuario_to_sucursal i p u d)) = sucursales d"
  by (auto simp: assign_usuario_to_sucursal_def insert_usuario_sucursal_def
      split: sum.splits option.splits)

lemma sucursales_remove [simp]:
  "sucursales (snd (remove_usuario_from_sucursal i j u d)) = sucursales d"
  by (auto simp: remove_usuario_from_sucursal_def delete_usuario_sucursal_def
      split: sum.splits option.splits)

lemma sucursales_create_almacen [simp]:
  "sucursales (snd (create_almacen n t p u d)) = sucursales d"
  by (auto simp: create_almacen_def insert_almacen_def insert_sucursal_almacen_def Let_def
      split: sum.splits option.splits)

lemma sucursales_update_almacen [simp]:
  "sucursales (snd (update_almacen i p u d)) = sucursales d"
  by (auto simp: update_almacen_def update_almacen_row_def Let_def
      split: sum.splits option.splits)

lemma sucursales_delete_almacen [simp]:
  "sucursales (snd (delete_almacen i u d)) = sucursales d"
  by (auto simp: delete_almacen_def update_almacen_row_def
      split: sum.splits option.splits)

lemma sucursales_link [simp]:
  "sucursales (snd (link_sucursal_to_almacen i p u d)) = sucursales d"
  by (auto simp: link_sucursal_to_almacen_def insert_sucursal_almacen_def
      split: sum.splits option.splits)

lemma sucursales_unlink [simp]:
  "sucursales (snd (unlink_sucursal_from_almacen i j u d)) = sucursales d"
  by (auto simp: unlink_sucursal_from_almacen_def delete_sucursal_almacen_def
      split: sum.splits option.splits)

lemma almacenes_assign [simp]:
  "almacenes (snd (assign_usuario_to_sucursal i p u d)) = almacenes d"
  by (auto simp: assign_usuario_to_sucursal_def insert_usuario_sucursal_def
      split: sum.splits option.splits)

lemma almacenes_remove [simp]:
  "almacenes (snd (remove_usuario_from_sucursal i j u d)) = almacenes d"
  by (auto simp: remove_usuario_from_sucursal_def delete_usuario_sucursal_def
      split: sum.splits option.splits)

lemma almacenes_create_sucursal [simp]:
  "almacenes (snd (create_sucursal n t p u d)) = almacenes d"
  by (auto simp: create_sucursal_def insert_sucursal_def Let_def
      split: sum.splits option.splits)

lemma almacenes_update_sucursal [simp]:
  "almacenes (snd (update_sucursal i p u d)) = almacenes d"
  by (auto simp: update_sucursal_def update_sucursal_row_def Let_def
      split: sum.splits option.splits)

lemma almacenes_delete_sucursal [simp]:
  "almacenes (snd (delete_sucursal i u d)) = almacenes d"
  by (auto simp: delete_sucursal_def update_sucursal_row_def
      split: sum.splits option.splits)

lemma almacenes_link [simp]:
  "almacenes (snd (link_sucursal_to_almacen i p u d)) = almacenes d"
  by (auto simp: link_sucursal_to_almacen_def insert_sucursal_almacen_def
      split: sum.splits option.splits)

lemma almacenes_unlink [simp]:
  "almacenes (snd (unlink_sucursal_from_almacen i j u d)) = almacenes d"
  by (auto simp: unlink_sucursal_from_almacen_def delete_sucursal_almacen_def
      split: sum.splits option.splits)

text \<open>What the writing handlers do to their own table.\<close>

lemma sucursales_create_sucursal:
  "sucursales (snd (create_sucursal n t p u d)) = sucursales d
   \<or> (n \<notin> set (map id_sucursal (sucursales d))
      \<and> (\<exists>row. id_sucursal row = n \<and> s_empresas_id_empresa row = id_empresa (empresa u)
            \<and> sucursales (snd (create_sucursal n t p u d)) = sucursales d @ [row]))"
  by (auto simp: create_sucursal_def insert_sucursal_def Let_def)

lemma almacenes_create_almacen:
  "almacenes (snd (create_almacen n t p u d)) = almacenes d
   \<or> (n \<notin> set (map id_almacen (almacenes d))
      \<and> (\<exists>row. id_almacen row = n \<and> a_empresas_id_empresa row = id_empresa (empresa u)
            \<and> almacenes (snd (create_almacen n t p u d)) = almacenes d @ [row]))"
  by (auto simp: create_almacen_def insert_almacen_def insert_sucursal_almacen_def Let_def
      split: sum.splits option.splits)

lemma sucursales_update_sucursal:
  "sucursales (snd (update_sucursal i p u d)) = sucursales d
   \<or> (\<exists>s s'. s \<in> set (sucursales d) \<and> id_sucursal s' = id_sucursal s
         \<and> s_empresas_id_empresa s' = s_empresas_id_empresa s
         \<and> s_estado s' = setattr_required (su_estado p) (s_estado s)
         \<and> su_estado p \<noteq> Some None
         \<and> snd (update_sucursal i p u d) = update_sucursal_row s' d)"
proof (cases "update_sucursal i p u d")
  case (Pair r d')
  show ?thesis
  proof (cases r)
    case (Inl e)
    with Pair have "d' = d"
      by (auto simp: update_sucursal_def Let_def split: sum.splits option.splits if_splits)
    with Pair show ?thesis by simp
  next
    case (Inr x)
    with Pair have ok: "update_sucursal i p u d = (Inr x, d')" by simp
    from ok show ?thesis
    proof (rule update_sucursal_ok)
      fix s
      assume q: "q_sucursal i (id_empresa (empresa u)) d = [s]"
        and n: "su_estado p \<noteq> Some None"
        and d': "d' = update_sucursal_row
               (s\<lparr>s_nombre := setattr_required (su_nombre p) (s_nombre s),
                  direccion := setattr_required (su_direccion p) (direccion s),
                  telefono := setattr_nullable (su_telefono p) (telefono s),
                  s_estado := setattr_required (su_estado p) (s_estado s)\<rparr>) d"
      from q_sucursal_single [OF q] have "s \<in> set (sucursales d)" by simp
      with n d' Pair show ?thesis
        by (intro disjI2 exI [of _ s]
              exI [of _ "s\<lparr>s_nombre := setattr_required (su_nombre p) (s_nombre s),
                  direccion := setattr_required (su_direccion p) (direccion s),
                  telefono := setattr_nullable (su_telefono p) (telefono s),
                  s_estado := setattr_required (su_estado p) (s_estado s)\<rparr>"]) simp
    qed
  qed
qed

lemma almacenes_update_almacen:
  "almacenes (snd (update_almacen i p u d)) = almacenes d
   \<or> (\<exists>a a'. a \<in> set (almacenes d) \<and> id_almacen a' = id_almacen a
         \<and> a_empresas_id_empresa a' = a_empresas_id_empresa a
         \<and> a_estado a' = setattr_required (au_estado p) (a_estado a)
         \<and> au_estado p \<noteq> Some None
         \<and> snd (update_almacen i p u d) = update_almacen_row a' d)"
proof (cases "update_almacen i p u d")
  case (Pair r d')
  show ?thesis
  proof (cases r)
    case (Inl e)
    with Pair have "d' = d"
      by (auto simp: update_almacen_def Let_def split: sum.splits option.splits if_splits)
    with Pair show ?thesis by simp
  next
    case (Inr x)
    with Pair have ok: "update_almacen i p u d = (Inr x, d')" by simp
    from ok show ?thesis
    proof (rule update_almacen_ok)
      fix a
      assume q: "q_almacen i (id_empresa (empresa u)) d = [a]"
        and n: "au_estado p \<noteq> Some None"
        and d': "d' = update_almacen_row
               (a\<lparr>a_nombre := setattr_required (au_nombre p) (a_nombre a),
                  descripcion := setattr_nullable (au_descripcion p) (descripcion a),
                  es_principal := setattr_required (au_es_principal p) (es_principal a),
                  a_estado := setattr_required (au_estado p) (a_estado a)\<rparr>) d"
      from q_almacen_single [OF q] have "a \<in> set (almacenes d)" by simp
      with n d' Pair show ?thesis
        by (intro disjI2 exI [of _ a]
              exI [of _ "a\<lparr>a_nombre := setattr_required (au_nombre p) (a_nombre a),
                  descripcion := setattr_nullable (au_descripcion p) (descripcion a),
                  es_principal := setattr_required (au_es_principal p) (es_principal a),
                  a_estado := setattr_required (au_estado p) (a_estado a)\<rparr>"]) simp
    qed
  qed
qed

lemma sucursales_delete_sucursal:
  "snd (delete_sucursal i u d) = d
   \<or> (\<exists>s. s \<in> set (sucursales d)
         \<and> snd (delete_sucursal i u d) = update_sucursal_row (s\<lparr>s_estado := False\<rparr>) d)"
  by (auto simp: delete_sucursal_def scalar_one_or_none_Some
      split: sum.splits option.splits dest: q_sucursal_single)

lemma almacenes_delete_almacen:
  "snd (delete_almacen i u d) = d
   \<or> (\<exists>a. a \<in> set (almacenes d)
         \<and> snd (delete_almacen i u d) = update_almacen_row (a\<lparr>a_estado := False\<rparr>) d)"
  by (auto simp: delete_almacen_def scalar_one_or_none_Some
      split: sum.splits option.splits dest: q_almacen_single)

section \<open>Inactive entities under the exposed operations\<close>

lemma sucursal_inactive_append:
  "sucursal_inactive d i c \<Longrightarrow> id_sucursal row \<notin> set (map id_sucursal (sucursales d))
   \<Longrightarrow> sucursales d' = sucursales d @ [row] \<Longrightarrow> sucursal_inactive d' i c"
  by (auto simp: sucursal_inactive_def)

lemma almacen_inactive_append:
  "almacen_inactive d i c \<Longrightarrow> id_almacen row \<notin> set (map id_almacen (almacenes d))
   \<Longrightarrow> almacenes d' = almacenes d @ [row] \<Longrightarrow> almacen_inactive d' i c"
  by (auto simp: almacen_inactive_def)

lemma sucursal_inactive_update_row:
  assumes "sucursal_inactive d i c" and "s \<in> set (sucursales d)"
    and "id_sucursal s' = id_sucursal s"
    and "s_empresas_id_empresa s' = s_empresas_id_empresa s"
    and "id_sucursal s = i \<longrightarrow> \<not> s_estado s'"
  shows "sucursal_inactive (update_sucursal_row s' d) i c"
proof -
  let ?g = "\<lambda>x. if id_sucursal x = id_sucursal s' then s' else x"
  have rows: "sucursales (update_sucursal_row s' d) = map ?g (sucursales d)"
    by (simp add: update_sucursal_row_def)
  have idg: "id_sucursal (?g x) = id_sucursal x" for x by simp
  from assms(1) obtain x where x: "x \<in> set (sucursales d)" "id_sucursal x = i"
    by (auto simp: sucursal_inactive_def)
  from x(1) have "?g x \<in> ?g ` set (sucursales d)" by (rule imageI)
  then have "?g x \<in> set (map ?g (sucursales d))" by (simp only: set_map)
  moreover from x(2) have "id_sucursal (?g x) = i" by simp
  ultimately have ex: "\<exists>y\<in>set (map ?g (sucursales d)). id_sucursal y = i"
    by (rule bexI [rotated])
  have "s_empresas_id_empresa y = c \<and> \<not> s_estado y"
    if "y \<in> set (map ?g (sucursales d))" "id_sucursal y = i" for y
  proof -
    from that(1) obtain z where z: "z \<in> set (sucursales d)" "y = ?g z" by auto
    with that(2) idg [of z] have zi: "id_sucursal z = i" by simp
    with z(1) assms(1) have nz: "s_empresas_id_empresa z = c \<and> \<not> s_estado z"
      by (auto simp: sucursal_inactive_def)
    show ?thesis
    proof (cases "id_sucursal z = id_sucursal s'")
      case True
      with zi assms(3) have si: "id_sucursal s = i" by simp
      with assms(1,2) have "s_empresas_id_empresa s = c" by (auto simp: sucursal_inactive_def)
      with si assms(4,5) True z(2) show ?thesis by simp
    next
      case False
      with z(2) nz show ?thesis by simp
    qed
  qed
  with ex show ?thesis unfolding sucursal_inactive_def rows by blast
qed

lemma almacen_inactive_update_row:
  assumes "almacen_inactive d i c" and "a \<in> set (almacenes d)"
    and "id_almacen a' = id_almacen a"
    and "a_empresas_id_empresa a' = a_empresas_id_empresa a"
    and "id_almacen a = i \<longrightarrow> \<not> a_estado a'"
  shows "almacen_inactive (update_almacen_row a' d) i c"
proof -
  let ?g = "\<lambda>x. if id_almacen x = id_almacen a' then a' else x"
  have rows: "almacenes (update_almacen_row a' d) = map ?g (almacenes d)"
    by (simp add: update_almacen_row_def)
  have idg: "id_almacen (?g x) = id_almacen x" for x by simp
  from assms(1) obtain x where x: "x \<in> set (almacenes d)" "id_almacen x = i"
    by (auto simp: almacen_inactive_def)
  from x(1) have "?g x \<in> ?g ` set (almacenes d)" by (rule imageI)
  then have "?g x \<in> set (map ?g (almacenes d))" by (simp only: set_map)
  moreover from x(2) have "id_almacen (?g x) = i" by simp
  ultimately have ex: "\<exists>y\<in>set (map ?g (almacenes d)). id_almacen y = i"
    by (rule bexI [rotated])
  have "a_empresas_id_empresa y = c \<and> \<not> a_estado y"
    if "y \<in> set (map ?g (almacenes d))" "id_almacen y = i" for y
  proof -
    from that(1) obtain z where z: "z \<in> set (almacenes d)" "y = ?g z" by auto
    with that(2) idg [of z] have zi: "id_almacen z = i" by simp
    with z(1) assms(1) have nz: "a_empresas_id_empresa z = c \<and> \<not> a_estado z"
      by (auto simp: almacen_inactive_def)
    show ?thesis
    proof (cases "id_almacen z = id_almacen a'")
      case True
      with zi assms(3) have ai: "id_almacen a = i" by simp
      with assms(1,2) have "a_empresas_id_empresa a = c" by (auto simp: almacen_inactive_def)
      with ai assms(4,5) True z(2) show ?thesis by simp
    next
      case False
      with z(2) nz show ?thesis by simp
    qed
  qed
  with ex show ?thesis unfolding almacen_inactive_def rows by blast
qed

lemma setattr_required_estado:
  "v \<noteq> Some None \<Longrightarrow> v \<noteq> Some (Some True) \<Longrightarrow> \<not> old \<Longrightarrow> \<not> setattr_required v old"
  by (auto simp: setattr_required_def split: option.splits)

text \<open>A PATCH either leaves the store as it was or rewrites the one row it fetched.\<close>

lemma update_sucursal_effect:
  "snd (update_sucursal i p u d) = d
   \<or> (\<exists>s s'. s \<in> set (sucursales d) \<and> id_sucursal s = i
         \<and> s_empresas_id_empresa s = id_empresa (empresa u)
         \<and> id_sucursal s' = id_sucursal s
         \<and> s_empresas_id_empresa s' = s_empresas_id_empresa s
         \<and> s_estado s' = setattr_required (su_estado p) (s_estado s)
         \<and> su_nombre p \<noteq> Some None \<and> su_direccion p \<noteq> Some None
         \<and> su_estado p \<noteq> Some None
         \<and> snd (update_sucursal i p u d) = update_sucursal_row s' d)"
proof (cases "update_sucursal i p u d")
  case (Pair r d')
  show ?thesis
  proof (cases r)
    case (Inl e)
    with Pair have "d' = d"
      by (auto simp: update_sucursal_def Let_def split: sum.splits option.splits if_splits)
    with Pair show ?thesis by simp
  next
    case (Inr x)
    with Pair have ok: "update_sucursal i p u d = (Inr x, d')" by simp
    from ok show ?thesis
    proof (rule update_sucursal_ok)
      fix s
      assume q: "q_sucursal i (id_empresa (empresa u)) d = [s]"
        and n: "su_nombre p \<noteq> Some None" "su_direccion p \<noteq> Some None"
          "su_estado p \<noteq> Some None"
        and d': "d' = update_sucursal_row
               (s\<lparr>s_nombre := setattr_required (su_nombre p) (s_nombre s),
                  direccion := setattr_required (su_direccion p) (direccion s),
                  telefono := setattr_nullable (su_telefono p) (telefono s),
                  s_estado := setattr_required (su_estado p) (s_estado s)\<rparr>) d"
      from q_sucursal_single [OF q] n d' Pair show ?thesis
        by (intro disjI2 exI [of _ s]
              exI [of _ "s\<lparr>s_nombre := setattr_required (su_nombre p) (s_nombre s),
                  direccion := setattr_required (su_direccion p) (direccion s),
                  telefono := setattr_nullable (su_telefono p) (telefono s),
                  s_estado := setattr_required (su_estado p) (s_estado s)\<rparr>"]) simp
    qed
  qed
qed

lemma update_almacen_effect:
  "snd (update_almacen i p u d) = d
   \<or> (\<exists>a a'. a \<in> set (almacenes d) \<and> id_almacen a = i
         \<and> a_empresas_id_empresa a = id_empresa (empresa u)
         \<and> id_almacen a' = id_almacen a
         \<and> a_empresas_id_empresa a' = a_empresas_id_empresa a
         \<and> a_estado a' = setattr_required (au_estado p) (a_estado a)
         \<and> au_nombre p \<noteq> Some None \<and> au_es_principal p \<noteq> Some None
         \<and> au_estado p \<noteq> Some None
         \<and> snd (update_almacen i p u d) = update_almacen_row a' d)"
proof (cases "update_almacen i p u d")
  case (Pair r d')
  show ?thesis
  proof (cases r)
    case (Inl e)
    with Pair have "d' = d"
      by (auto simp: update_almacen_def Let_def split: sum.splits option.splits if_splits)
    with Pair show ?thesis by simp
  next
    case (Inr x)
    with Pair have ok: "update_almacen i p u d = (Inr x, d')" by simp
    from ok show ?thesis
    proof (rule update_almacen_ok)
      fix a
      assume q: "q_almacen i (id_empresa (empresa u)) d = [a]"
        and n: "au_nombre p \<noteq> Some None" "au_es_principal p \<noteq> Some None"
          "au_estado p \<noteq> Some None"
        and d': "d' = update_almacen_row
               (a\<lparr>a_nombre := setattr_required (au_nombre p) (a_nombre a),
                  descripcion := setattr_nullable (au_descripcion p) (descripcion a),
                  es_principal := setattr_required (au_es_principal p) (es_principal a),
                  a_estado := setattr_required (au_estado p) (a_estado a)\<rparr>) d"
      from q_almacen_single [OF q] n d' Pair show ?thesis
        by (intro disjI2 exI [of _ a]
              exI [of _ "a\<lparr>a_nombre := setattr_required (au_nombre p) (a_nombre a),
                  descripcion := setattr_nullable (au_descripcion p) (descripcion a),
                  es_principal := setattr_required (au_es_principal p) (es_principal a),
                  a_estado := setattr_required (au_estado p) (a_estado a)\<rparr>"]) simp
    qed
  qed
qed

lemma step_sucursal_inactive:
  assumes "\<not> reactivates_sucursal i c r" and "sucursal_inactive d i c"
  shows "sucursal_inactive (step r d) i c"
proof (cases r)
  case (CreateSucursal n t p u)
  from sucursales_create_sucursal [of n t p u d] show ?thesis
  proof
    assume "sucursales (snd (create_sucursal n t p u d)) = sucursales d"
    with assms(2) show ?thesis by (simp add: CreateSucursal sucursal_inactive_def)
  next
    assume "n \<notin> set (map id_sucursal (sucursales d))
      \<and> (\<exists>row. id_sucursal row = n \<and> s_empresas_id_empresa row = id_empresa (empresa u)
            \<and> sucursales (snd (create_sucursal n t p u d)) = sucursales d @ [row])"
    then obtain row where "id_sucursal row \<notin> set (map id_sucursal (sucursales d))"
      "sucursales (snd (create_sucursal n t p u d)) = sucursales d @ [row]" by blast
    from sucursal_inactive_append [OF assms(2) this] show ?thesis by (simp add: CreateSucursal)
  qed
next
  case (UpdateSucursal j p u)
  from update_sucursal_effect [of j p u d] show ?thesis
  proof
    assume "snd (update_sucursal j p u d) = d"
    with assms(2) show ?thesis by (simp add: UpdateSucursal)
  next
    assume "\<exists>s s'. s \<in> set (sucursales d) \<and> id_sucursal s = j
         \<and> s_empresas_id_empresa s = id_empresa (empresa u)
         \<and> id_sucursal s' = id_sucursal s
         \<and> s_empresas_id_empresa s' = s_empresas_id_empresa s
         \<and> s_estado s' = setattr_required (su_estado p) (s_estado s)
         \<and> su_nombre p \<noteq> Some None \<and> su_direccion p \<noteq> Some None
         \<and> su_estado p \<noteq> Some None
         \<and> snd (update_sucursal j p u d) = update_sucursal_row s' d"
    then obtain s s' where m: "s \<in> set (sucursales d)"
      and sj: "id_sucursal s = j" and su: "s_empresas_id_empresa s = id_empresa (empresa u)"
      and k: "id_sucursal s' = id_sucursal s" "s_empresas_id_empresa s' = s_empresas_id_empresa s"
      and e: "s_estado s' = setattr_required (su_estado p) (s_estado s)"
      and n2: "su_nombre p \<noteq> Some None" "su_direccion p \<noteq> Some None"
      and nn: "su_estado p \<noteq> Some None"
      and d': "snd (update_sucursal j p u d) = update_sucursal_row s' d" by blast
    have "\<not> s_estado s'" if "id_sucursal s = i"
    proof -
      from that m assms(2) have o: "s_empresas_id_empresa s = c" "\<not> s_estado s"
        by (auto simp: sucursal_inactive_def)
      with that sj su n2 assms(1) have "su_estado p \<noteq> Some (Some True)"
        by (simp add: UpdateSucursal)
      from setattr_required_estado [OF nn this o(2)] e show ?thesis by simp
    qed
    then have "id_sucursal s = i \<longrightarrow> \<not> s_estado s'" by simp
    from sucursal_inactive_update_row [OF assms(2) m k this] show ?thesis
      by (simp add: UpdateSucursal d')
  qed
next
  case (DeleteSucursal j u)
  from sucursales_delete_sucursal [of j u d] show ?thesis
  proof
    assume "snd (delete_sucursal j u d) = d"
    with assms(2) show ?thesis by (simp add: DeleteSucursal)
  next
    assume "\<exists>s. s \<in> set (sucursales d)
         \<and> snd (delete_sucursal j u d) = update_sucursal_row (s\<lparr>s_estado := False\<rparr>) d"
    then obtain s where m: "s \<in> set (sucursales d)"
      and d': "snd (delete_sucursal j u d) = update_sucursal_row (s\<lparr>s_estado := False\<rparr>) d"
      by blast
    have "sucursal_inactive (update_sucursal_row (s\<lparr>s_estado := False\<rparr>) d) i c"
      by (rule sucursal_inactive_update_row [OF assms(2) m]) simp_all
    then show ?thesis by (simp add: DeleteSucursal d')
  qed
qed (use assms(2) in \<open>simp_all add: sucursal_inactive_def\<close>)

lemma step_almacen_inactive:
  assumes "\<not> reactivates_almacen i c r" and "almacen_inactive d i c"
  shows "almacen_inactive (step r d) i c"
proof (cases r)
  case (CreateAlmacen n t p u)
  from almacenes_create_almacen [of n t p u d] show ?thesis
  proof
    assume "almacenes (snd (create_almacen n t p u d)) = almacenes d"
    with assms(2) show ?thesis by (simp add: CreateAlmacen almacen_inactive_def)
  next
    assume "n \<notin> set (map id_almacen (almacenes d))
      \<and> (\<exists>row. id_almacen row = n \<and> a_empresas_id_empresa row = id_empresa (empresa u)
            \<and> almacenes (snd (create_almacen n t p u d)) = almacenes d @ [row])"
    then obtain row where "id_almacen row \<notin> set (map id_almacen (almacenes d))"
      "almacenes (snd (create_almacen n t p u d)) = almacenes d @ [row]" by blast
    from almacen_inactive_append [OF assms(2) this] show ?thesis by (simp add: CreateAlmacen)
  qed
next
  case (UpdateAlmacen j p u)
  from update_almacen_effect [of j p u d] show ?thesis
  proof
    assume "snd (update_almacen j p u d) = d"
    with assms(2) show ?thesis by (simp add: UpdateAlmacen)
  next
    assume "\<exists>a a'. a \<in> set (almacenes d) \<and> id_almacen a = j
         \<and> a_empresas_id_empresa a = id_empresa (empresa u)
         \<and> id_almacen a' = id_almacen a
         \<and> a_empresas_id_empresa a' = a_empresas_id_empresa a
         \<and> a_estado a' = setattr_required (au_estado p) (a_estado a)
         \<and> au_nombre p \<noteq> Some None \<and> au_es_principal p \<noteq> Some None
         \<and> au_estado p \<noteq> Some None
         \<and> snd (update_almacen j p u d) = update_almacen_row a' d"
    then obtain a a' where m: "a \<in> set (almacenes d)"
      and aj: "id_almacen a = j" and au: "a_empresas_id_empresa a = id_empresa (empresa u)"
      and k: "id_almacen a' = id_almacen a" "a_empresas_id_empresa a' = a_empresas_id_empresa a"
      and e: "a_estado a' = setattr_required (au_estado p) (a_estado a)"
      and n2: "au_nombre p \<noteq> Some None" "au_es_principal p \<noteq> Some None"
      and nn: "au_estado p \<noteq> Some None"
      and d': "snd (update_almacen j p u d) = update_almacen_row a' d" by blast
    have "\<not> a_estado a'" if "id_almacen a = i"
    proof -
      from that m assms(2) have o: "a_empresas_id_empresa a = c" "\<not> a_estado a"
        by (auto simp: almacen_inactive_def)
      with that aj au n2 assms(1) have "au_estado p \<noteq> Some (Some True)"
        by (simp add: UpdateAlmacen)
      from setattr_required_estado [OF nn this o(2)] e show ?thesis by simp
    qed
    then have "id_almacen a = i \<longrightarrow> \<not> a_estado a'" by simp
    from almacen_inactive_update_row [OF assms(2) m k this] show ?thesis
      by (simp add: UpdateAlmacen d')
  qed
next
  case (DeleteAlmacen j u)
  from almacenes_delete_almacen [of j u d] show ?thesis
  proof
    assume "snd (delete_almacen j u d) = d"
    with assms(2) show ?thesis by (simp add: DeleteAlmacen)
  next
    assume "\<exists>a. a \<in> set (almacenes d)
         \<and> snd (delete_almacen j u d) = update_almacen_row (a\<lparr>a_estado := False\<rparr>) d"
    then obtain a where m: "a \<in> set (almacenes d)"
      and d': "snd (delete_almacen j u d) = update_almacen_row (a\<lparr>a_estado := False\<rparr>) d"
      by blast
    have "almacen_inactive (update_almacen_row (a\<lparr>a_estado := False\<rparr>) d) i c"
      by (rule almacen_inactive_update_row [OF assms(2) m]) simp_all
    then show ?thesis by (simp add: DeleteAlmacen d')
  qed
qed (use assms(2) in \<open>simp_all add: almacen_inactive_def\<close>)

lemma run_sucursal_inactive:
  "sucursal_inactive d i c \<Longrightarrow> \<forall>r\<in>set rs. \<not> reactivates_sucursal i c r
   \<Longrightarrow> sucursal_inactive (run rs d) i c"
  by (induction rs arbitrary: d) (simp_all add: step_sucursal_inactive)

lemma run_almacen_inactive:
  "almacen_inactive d i c \<Longrightarrow> \<forall>r\<in>set rs. \<not> reactivates_almacen i c r
   \<Longrightarrow> almacen_inactive (run rs d) i c"
  by (induction rs arbitrary: d) (simp_all add: step_almacen_inactive)

text \<open>After its UPDATE every row with the id of a deleted row is that row, inactive.\<close>

lemma sucursal_inactive_after_delete:
  assumes "s \<in> set (sucursales d)"
  shows "sucursal_inactive (update_sucursal_row (s\<lparr>s_estado := False\<rparr>) d)
           (id_sucursal s) (s_empresas_id_empresa s)"
proof -
  let ?s' = "s\<lparr>s_estado := False\<rparr>"
  let ?g = "\<lambda>x. if id_sucursal x = id_sucursal ?s' then ?s' else x"
  have rows: "sucursales (update_sucursal_row ?s' d) = map ?g (sucursales d)"
    by (simp add: update_sucursal_row_def)
  from assms have "?g s \<in> ?g ` set (sucursales d)" by (rule imageI)
  then have "?s' \<in> set (map ?g (sucursales d))" by (simp only: set_map) simp
  then have ex: "\<exists>y\<in>set (map ?g (sucursales d)). id_sucursal y = id_sucursal s"
    by (rule bexI [rotated]) simp
  have "s_empresas_id_empresa y = s_empresas_id_empresa s \<and> \<not> s_estado y"
    if "y \<in> set (map ?g (sucursales d))" "id_sucursal y = id_sucursal s" for y
  proof -
    from that(1) obtain z where "z \<in> set (sucursales d)" "y = ?g z" by auto
    with that(2) show ?thesis by (cases "id_sucursal z = id_sucursal s") simp_all
  qed
  with ex show ?thesis unfolding sucursal_inactive_def rows by blast
qed

lemma almacen_inactive_after_delete:
  assumes "a \<in> set (almacenes d)"
  shows "almacen_inactive (update_almacen_row (a\<lparr>a_estado := False\<rparr>) d)
           (id_almacen a) (a_empresas_id_empresa a)"
proof -
  let ?a' = "a\<lparr>a_estado := False\<rparr>"
  let ?g = "\<lambda>x. if id_almacen x = id_almacen ?a' then ?a' else x"
  have rows: "almacenes (update_almacen_row ?a' d) = map ?g (almacenes d)"
    by (simp add: update_almacen_row_def)
  from assms have "?g a \<in> ?g ` set (almacenes d)" by (rule imageI)
  then have "?a' \<in> set (map ?g (almacenes d))" by (simp only: set_map) simp
  then have ex: "\<exists>y\<in>set (map ?g (almacenes d)). id_almacen y = id_almacen a"
    by (rule bexI [rotated]) simp
  have "a_empresas_id_empresa y = a_empresas_id_empresa a \<and> \<not> a_estado y"
    if "y \<in> set (map ?g (almacenes d))" "id_almacen y = id_almacen a" for y
  proof -
    from that(1) obtain z where "z \<in> set (almacenes d)" "y = ?g z" by auto
    with that(2) show ?thesis by (cases "id_almacen z = id_almacen a") simp_all
  qed
  with ex show ?thesis unfolding almacen_inactive_def rows by blast
qed

lemma delete_sucursal_inactive:
  assumes "fst (delete_sucursal i u d) = Inr NoContent"
  shows "sucursal_inactive (snd (delete_sucursal i u d)) i (id_empresa (empresa u))"
proof -
  from assms have "delete_sucursal i u d = (Inr NoContent, snd (delete_sucursal i u d))"
    by (metis prod.collapse)
  then obtain s where q: "q_sucursal i (id_empresa (empresa u)) d = [s]"
    and d': "snd (delete_sucursal i u d) = update_sucursal_row (s\<lparr>s_estado := False\<rparr>) d"
    unfolding delete_sucursal_ok by blast
  from q_sucursal_single [OF q] sucursal_inactive_after_delete [of s d] show ?thesis
    by (simp add: d')
qed

lemma delete_almacen_inactive:
  assumes "fst (delete_almacen i u d) = Inr NoContent"
  shows "almacen_inactive (snd (delete_almacen i u d)) i (id_empresa (empresa u))"
proof -
  from assms have "delete_almacen i u d = (Inr NoContent, snd (delete_almacen i u d))"
    by (metis prod.collapse)
  then obtain a where q: "q_almacen i (id_empresa (empresa u)) d = [a]"
    and d': "snd (delete_almacen i u d) = update_almacen_row (a\<lparr>a_estado := False\<rparr>) d"
    unfolding delete_almacen_ok by blast
  from q_almacen_single [OF q] almacen_inactive_after_delete [of a d] show ?thesis
    by (simp add: d')
qed

text \<open>A reactivating request does reactivate.\<close>

lemma step_sucursal_reactivated:
  assumes pk: "primary_keys d" and ina: "sucursal_inactive d i c"
    and re: "reactivates_sucursal i c r"
  shows "\<not> sucursal_inactive (step r d) i c"
proof (cases r)
  case (UpdateSucursal j p u)
  with re have j: "j = i" and u: "id_empresa (empresa u) = c"
    and p: "su_estado p = Some (Some True)" "su_nombre p \<noteq> Some None"
      "su_direccion p \<noteq> Some None" by simp_all
  from ina obtain s where m: "s \<in> set (sucursales d)" and si: "id_sucursal s = i"
    and sc: "s_empresas_id_empresa s = c" by (auto simp: sucursal_inactive_def)
  let ?s' = "s\<lparr>s_nombre := setattr_required (su_nombre p) (s_nombre s),
                direccion := setattr_required (su_direccion p) (direccion s),
                telefono := setattr_nullable (su_telefono p) (telefono s),
                s_estado := setattr_required (su_estado p) (s_estado s)\<rparr>"
  from update_sucursal_outcome [OF pk m si, of u p] sc u p
  have "sucursales (snd (update_sucursal i p u d))
          = map (\<lambda>x. if x = s then ?s' else x) (sucursales d)"
    by (simp add: Let_def)
  moreover from m have "(\<lambda>x. if x = s then ?s' else x) s
          \<in> (\<lambda>x. if x = s then ?s' else x) ` set (sucursales d)" by (rule imageI)
  ultimately have "?s' \<in> set (sucursales (step r d))"
    by (simp add: UpdateSucursal j)
  moreover have "id_sucursal ?s' = i" "s_estado ?s'"
    using si p(1) by (simp_all add: setattr_required_def)
  ultimately show ?thesis unfolding sucursal_inactive_def by blast
qed (use re in simp_all)

lemma step_almacen_reactivated:
  assumes pk: "primary_keys d" and ina: "almacen_inactive d i c"
    and re: "reactivates_almacen i c r"
  shows "\<not> almacen_inactive (step r d) i c"
proof (cases r)
  case (UpdateAlmacen j p u)
  with re have j: "j = i" and u: "id_empresa (empresa u) = c"
    and p: "au_estado p = Some (Some True)" "au_nombre p \<noteq> Some None"
      "au_es_principal p \<noteq> Some None" by simp_all
  from ina obtain a where m: "a \<in> set (almacenes d)" and ai: "id_almacen a = i"
    and ac: "a_empresas_id_empresa a = c" by (auto simp: almacen_inactive_def)
  let ?a' = "a\<lparr>a_nombre := setattr_required (au_nombre p) (a_nombre a),
                descripcion := setattr_nullable (au_descripcion p) (descripcion a),
                es_principal := setattr_required (au_es_principal p) (es_principal a),
                a_estado := setattr_required (au_estado p) (a_estado a)\<rparr>"
  from update_almacen_outcome [OF pk m ai, of u p] ac u p
  have "almacenes (snd (update_almacen i p u d))
          = map (\<lambda>x. if x = a then ?a' else x) (almacenes d)"
    by (simp add: Let_def)
  moreover from m have "(\<lambda>x. if x = a then ?a' else x) a
          \<in> (\<lambda>x. if x = a then ?a' else x) ` set (almacenes d)" by (rule imageI)
  ultimately have "?a' \<in> set (almacenes (step r d))"
    by (simp add: UpdateAlmacen j)
  moreover have "id_almacen ?a' = i" "a_estado ?a'"
    using ai p(1) by (simp_all add: setattr_required_def)
  ultimately show ?thesis unfolding almacen_inactive_def by blast
qed (use re in simp_all)

text \<open>
  Claim C4 says no exposed operation moves an entity from \<open>estado\<close> false back to
  true. The update schemas carry \<open>estado\<close>, and the PATCH handlers write every field
  the body carries: branch 2 of the example store is inactive, and a PATCH of branch 2
  with \<open>estado\<close> true by its own company makes it active again.
\<close>

theorem update_reactivates_counterexample:
  "sucursal_inactive store0 2 2
   \<and> \<not> sucursal_inactive (run [UpdateSucursal 2 (patch_sucursal_estado True) user2] store0) 2 2
   \<and> map s_estado (sucursales store0) = [True, False]
   \<and> map s_estado (sucursales (snd (update_sucursal 2 (patch_sucursal_estado True) user2 store0)))
        = [True, True]"
  by (simp add: sucursal_inactive_def update_sucursal_def handler_defs store_defs
      patch_sucursal_estado_def setattr_required_def setattr_nullable_def Let_def)

text \<open>
  Claim C4 as amended: a successful delete leaves the entity inactive, and the only
  exposed operation that moves an inactive entity back to active is a partial update of
  that same entity, sent by a caller of the company that owns it, whose body carries
  \<open>estado\<close> true and no null for a column that takes none. Along any sequence of
  requests none of which is such an update of branch \<open>i\<close> of company \<open>c\<close>, the branch
  stays inactive once it is; updates of other entities, of warehouses, or by callers of
  another company do not count, whatever their body carries. Such an update, in a store
  whose ids are unique, does make the branch active. Likewise for a warehouse.
\<close>

theorem inactive_stays_inactive:
  "(sucursal_inactive d i c \<and> (\<forall>r\<in>set rs. \<not> reactivates_sucursal i c r) \<longrightarrow>
      sucursal_inactive (run rs d) i c)
   \<and> (almacen_inactive d j c' \<and> (\<forall>r\<in>set rs. \<not> reactivates_almacen j c' r) \<longrightarrow>
      almacen_inactive (run rs d) j c')
   \<and> (fst (delete_sucursal i u d) = Inr NoContent \<longrightarrow>
      sucursal_inactive (snd (delete_sucursal i u d)) i (id_empresa (empresa u)))
   \<and> (fst (delete_almacen j u d) = Inr NoContent \<longrightarrow>
      almacen_inactive (snd (delete_almacen j u d)) j (id_empresa (empresa u)))
   \<and> (primary_keys d \<and> sucursal_inactive d i c \<and> reactivates_sucursal i c r \<longrightarrow>
      \<not> sucursal_inactive (step r d) i c)
   \<and> (primary_keys d \<and> almacen_inactive d j c' \<and> reactivates_almacen j c' r \<longrightarrow>
      \<not> almacen_inactive (step r d) j c')"
proof (intro conjI impI)
  assume "sucursal_inactive d i c \<and> (\<forall>r\<in>set rs. \<not> reactivates_sucursal i c r)"
  then show "sucursal_inactive (run rs d) i c"
    using run_sucursal_inactive [of d i c rs] by blast
next
  assume "almacen_inactive d j c' \<and> (\<forall>r\<in>set rs. \<not> reactivates_almacen j c' r)"
  then show "almacen_inactive (run rs d) j c'"
    using run_almacen_inactive [of d j c' rs] by blast
next
  assume "fst (delete_sucursal i u d) = Inr NoContent"
  then show "sucursal_inactive (snd (delete_sucursal i u d)) i (id_empresa (empresa u))"
    by (rule delete_sucursal_inactive)
next
  assume "fst (delete_almacen j u d) = Inr NoContent"
  then show "almacen_inactive (snd (delete_almacen j u d)) j (id_empresa (empresa u))"
    by (rule delete_almacen_inactive)
next
  assume "primary_keys d \<and> sucursal_inactive d i c \<and> reactivates_sucursal i c r"
  then show "\<not> sucursal_inactive (step r d) i c"
    using step_sucursal_reactivated [of d i c r] by blast
next
  assume "primary_keys d \<and> almacen_inactive d j c' \<and> reactivates_almacen j c' r"
  then show "\<not> almacen_inactive (step r d) j c'"
    using step_almacen_reactivated [of d j c' r] by blast
qed

text \<open>
  Branch 2 of company 2 is inactive in the example store. It stays inactive along a run
  that reactivates branch 1, tries to reactivate branch 2 from company 1, reactivates
  warehouse 2 and deletes branch 2; its own company's PATCH with \<open>estado\<close> true makes
  it active. Warehouse 1 of company 1, once deleted, is inactive and stays so along the
  same run.
\<close>

theorem inactive_stays_inactive_witness:
  "sucursal_inactive store0 2 2
   \<and> \<not> reactivates_sucursal 2 2 (UpdateSucursal 1 (patch_sucursal_estado True) user1)
   \<and> \<not> reactivates_sucursal 2 2 (UpdateSucursal 2 (patch_sucursal_estado True) user1)
   \<and> \<not> reactivates_sucursal 2 2 (UpdateAlmacen 2 (patch_almacen_estado True) user2)
   \<and> \<not> reactivates_sucursal 2 2 (DeleteSucursal 2 user2)
   \<and> sucursal_inactive
        (run [UpdateSucursal 1 (patch_sucursal_estado True) user1,
              UpdateSucursal 2 (patch_sucursal_estado True) user1,
              UpdateAlmacen 2 (patch_almacen_estado True) user2,
              DeleteSucursal 2 user2] store0) 2 2
   \<and> fst (delete_almacen 1 user1 store0) = Inr NoContent
   \<and> almacen_inactive (snd (delete_almacen 1 user1 store0)) 1 1
   \<and> \<not> reactivates_almacen 1 1 (UpdateSucursal 1 (patch_sucursal_estado True) user1)
   \<and> \<not> reactivates_almacen 1 1 (UpdateSucursal 2 (patch_sucursal_estado True) user1)
   \<and> \<not> reactivates_almacen 1 1 (UpdateAlmacen 2 (patch_almacen_estado True) user2)
   \<and> \<not> reactivates_almacen 1 1 (DeleteSucursal 2 user2)
   \<and> almacen_inactive
        (run [UpdateSucursal 1 (patch_sucursal_estado True) user1,
              UpdateSucursal 2 (patch_sucursal_estado True) user1,
              UpdateAlmacen 2 (patch_almacen_estado True) user2,
              DeleteSucursal 2 user2] (snd (delete_almacen 1 user1 store0))) 1 1
   \<and> primary_keys store0
   \<and> reactivates_sucursal 2 2 (UpdateSucursal 2 (patch_sucursal_estado True) user2)
   \<and> \<not> sucursal_inactive
          (step (UpdateSucursal 2 (patch_sucursal_estado True) user2) store0) 2 2"
proof -
  let ?rs = "[UpdateSucursal 1 (patch_sucursal_estado True) user1,
              UpdateSucursal 2 (patch_sucursal_estado True) user1,
              UpdateAlmacen 2 (patch_almacen_estado True) user2,
              DeleteSucursal 2 user2]"
  let ?d = "snd (delete_almacen 1 user1 store0)"
  have rs: "\<not> reactivates_sucursal 2 2 (UpdateSucursal 1 (patch_sucursal_estado True) user1)"
    "\<not> reactivates_sucursal 2 2 (UpdateSucursal 2 (patch_sucursal_estado True) user1)"
    "\<not> reactivates_sucursal 2 2 (UpdateAlmacen 2 (patch_almacen_estado True) user2)"
    "\<not> reactivates_sucursal 2 2 (DeleteSucursal 2 user2)"
    by (simp_all add: user1_def patch_sucursal_estado_def)
  have ra: "\<not> reactivates_almacen 1 1 (UpdateSucursal 1 (patch_sucursal_estado True) user1)"
    "\<not> reactivates_almacen 1 1 (UpdateSucursal 2 (patch_sucursal_estado True) user1)"
    "\<not> reactivates_almacen 1 1 (UpdateAlmacen 2 (patch_almacen_estado True) user2)"
    "\<not> reactivates_almacen 1 1 (DeleteSucursal 2 user2)"
    by simp_all
  from rs have alls: "\<forall>r\<in>set ?rs. \<not> reactivates_sucursal 2 2 r" by simp
  from ra have alla: "\<forall>r\<in>set ?rs. \<not> reactivates_almacen 1 1 r" by simp
  have s: "sucursal_inactive store0 2 2" by (simp add: sucursal_inactive_def store_defs)
  have del: "fst (delete_almacen 1 user1 store0) = Inr NoContent"
    by (simp add: delete_almacen_def handler_defs store_defs)
  have u: "id_empresa (empresa user1) = 1" by (simp add: user1_def)
  from inactive_stays_inactive [where d = store0 and i = 2 and c = 2 and rs = ?rs
         and j = 1 and u = user1, THEN conjunct1, THEN mp, OF conjI [OF s alls]]
  have r1: "sucursal_inactive (run ?rs store0) 2 2" .
  from inactive_stays_inactive [where d = store0 and j = 1 and u = user1,
         THEN conjunct2, THEN conjunct2, THEN conjunct2, THEN conjunct1, THEN mp, OF del] u
  have a: "almacen_inactive ?d 1 1" by simp
  from inactive_stays_inactive [where d = ?d and j = 1 and c' = 1 and rs = ?rs,
         THEN conjunct2, THEN conjunct1, THEN mp, OF conjI [OF a alla]]
  have r2: "almacen_inactive (run ?rs ?d) 1 1" .
  have pk: "primary_keys store0" by (simp add: primary_keys_def store_defs)
  have re: "reactivates_sucursal 2 2 (UpdateSucursal 2 (patch_sucursal_estado True) user2)"
    by (simp add: user2_def patch_sucursal_estado_def)
  from inactive_stays_inactive [where d = store0 and i = 2 and c = 2
         and r = "UpdateSucursal 2 (patch_sucursal_estado True) user2",
         THEN conjunct2, THEN conjunct2, THEN conjunct2, THEN conjunct2, THEN conjunct1,
         THEN mp, OF conjI [OF pk conjI [OF s re]]]
  have r3: "\<not> sucursal_inactive
          (step (UpdateSucursal 2 (patch_sucursal_estado True) user2) store0) 2 2" .
  from s rs r1 del a ra r2 pk re r3 show ?thesis by (intro conjI)
qed

section \<open>The link table under the exposed operations\<close>

text \<open>The link table under each handler.\<close>

lemma links_create_sucursal [simp]:
  "sucursales_almacenes (snd (create_sucursal n t p u d)) = sucursales_almacenes d"
  by (simp add: create_sucursal_def insert_sucursal_def Let_def)

lemma links_assign [simp]:
  "sucursales_almacenes (snd (assign_usuario_to_sucursal i p u d)) = sucursales_almacenes d"
  by (auto simp: assign_usuario_to_sucursal_def insert_usuario_sucursal_def
      split: sum.splits option.splits)

lemma links_remove [simp]:
  "sucursales_almacenes (snd (remove_usuario_from_sucursal i j u d)) = sucursales_almacenes d"
  by (auto simp: remove_usuario_from_sucursal_def delete_usuario_sucursal_def
      split: sum.splits option.splits)

lemma links_update_sucursal [simp]:
  "sucursales_almacenes (snd (update_sucursal i p u d)) = sucursales_almacenes d"
  by (auto simp: update_sucursal_def update_sucursal_row_def Let_def
      split: sum.splits option.splits)

lemma links_delete_sucursal [simp]:
  "sucursales_almacenes (snd (delete_sucursal i u d)) = sucursales_almacenes d"
  by (auto simp: delete_sucursal_def update_sucursal_row_def
      split: sum.splits option.splits)

lemma links_update_almacen [simp]:
  "sucursales_almacenes (snd (update_almacen i p u d)) = sucursales_almacenes d"
  by (auto simp: update_almacen_def update_almacen_row_def Let_def
      split: sum.splits option.splits)

lemma links_delete_almacen [simp]:
  "sucursales_almacenes (snd (delete_almacen i u d)) = sucursales_almacenes d"
  by (auto simp: delete_almacen_def update_almacen_row_def
      split: sum.splits option.splits)

lemma links_unlink:
  "l \<in> set (sucursales_almacenes (snd (unlink_sucursal_from_almacen i j u d)))
   \<Longrightarrow> l \<in> set (sucursales_almacenes d)"
  by (auto simp: unlink_sucursal_from_almacen_def delete_sucursal_almacen_def
      split: sum.splits option.splits)

lemma owner_mem_sucursal:
  "s \<in> set (sucursales d)
   \<Longrightarrow> (id_sucursal s, s_empresas_id_empresa s) \<in> set (map sucursal_owner (sucursales d))"
  by (force simp: sucursal_owner_def)

lemma owner_mem_almacen:
  "a \<in> set (almacenes d)
   \<Longrightarrow> (id_almacen a, a_empresas_id_empresa a) \<in> set (map almacen_owner (almacenes d))"
  by (force simp: almacen_owner_def)

lemma links_create_almacen:
  assumes "l \<in> set (sucursales_almacenes (snd (create_almacen n t p u d)))"
  shows "l \<in> set (sucursales_almacenes d)
         \<or> link_in_company (id_empresa (empresa u)) (snd (create_almacen n t p u d)) l"
proof (cases "create_almacen n t p u d")
  case (Pair r d')
  show ?thesis
  proof (cases r)
    case (Inl e)
    with Pair have "d' = d"
      by (auto simp: create_almacen_def Let_def split: sum.splits option.splits)
    with Pair assms show ?thesis by simp
  next
    case (Inr w)
    with Pair have ok: "create_almacen n t p u d = (Inr w, d')" by simp
    from ok show ?thesis
    proof (rule create_almacen_ok)
      fix s
      let ?a = "\<lparr>id_almacen = n, a_nombre = ac_nombre p, descripcion = ac_descripcion p,
                es_principal = ac_es_principal p,
                a_estado = (case ac_estado p of Some b \<Rightarrow> b | None \<Rightarrow> True),
                a_fecha_creacion = t, a_empresas_id_empresa = id_empresa (empresa u)\<rparr>"
      let ?l = "\<lparr>sa_sucursales_id_sucursal = ac_sucursal_id p, sa_almacenes_id_almacen = n\<rparr>"
      assume q: "q_sucursal (ac_sucursal_id p) (id_empresa (empresa u)) d = [s]"
        and d': "d' = d\<lparr>almacenes := almacenes d @ [?a],
                       sucursales_almacenes := sucursales_almacenes d @ [?l]\<rparr>"
      from q_sucursal_single [OF q] have m: "s \<in> set (sucursales d)"
        "id_sucursal s = ac_sucursal_id p" "s_empresas_id_empresa s = id_empresa (empresa u)"
        by simp_all
      from owner_mem_sucursal [OF m(1)] m(2,3)
      have "link_in_company (id_empresa (empresa u)) d' ?l"
        by (simp add: link_in_company_def d' almacen_owner_def)
      moreover from assms Pair d' have "l \<in> set (sucursales_almacenes d) \<or> l = ?l" by auto
      ultimately show ?thesis using Pair by auto
    qed
  qed
qed

lemma link_sucursal_to_almacen_ok:
  assumes "link_sucursal_to_almacen i p u d = (Inr r, d')"
  obtains a s where "q_almacen i (id_empresa (empresa u)) d = [a]"
    and "q_sucursal (sac_sucursal_id p) (id_empresa (empresa u)) d = [s]"
    and "d' = d\<lparr>sucursales_almacenes := sucursales_almacenes d @
                 [\<lparr>sa_sucursales_id_sucursal = sac_sucursal_id p, sa_almacenes_id_almacen = i\<rparr>]\<rparr>"
  using assms
  by (auto simp: link_sucursal_to_almacen_def scalar_one_or_none_Some
      insert_sucursal_almacen_def split: sum.splits option.splits if_splits)

lemma links_link:
  assumes "l \<in> set (sucursales_almacenes (snd (link_sucursal_to_almacen i p u d)))"
  shows "l \<in> set (sucursales_almacenes d)
         \<or> link_in_company (id_empresa (empresa u)) (snd (link_sucursal_to_almacen i p u d)) l"
proof (cases "link_sucursal_to_almacen i p u d")
  case (Pair r d')
  show ?thesis
  proof (cases r)
    case (Inl e)
    with Pair have "d' = d"
      by (auto simp: link_sucursal_to_almacen_def split: sum.splits option.splits)
    with Pair assms show ?thesis by simp
  next
    case (Inr w)
    with Pair have ok: "link_sucursal_to_almacen i p u d = (Inr w, d')" by simp
    from ok show ?thesis
    proof (rule link_sucursal_to_almacen_ok)
      fix a s
      let ?l = "\<lparr>sa_sucursales_id_sucursal = sac_sucursal_id p, sa_almacenes_id_almacen = i\<rparr>"
      assume qa: "q_almacen i (id_empresa (empresa u)) d = [a]"
        and qs: "q_sucursal (sac_sucursal_id p) (id_empresa (empresa u)) d = [s]"
        and d': "d' = d\<lparr>sucursales_almacenes := sucursales_almacenes d @ [?l]\<rparr>"
      from q_sucursal_single [OF qs] have ms: "s \<in> set (sucursales d)"
        "id_sucursal s = sac_sucursal_id p" "s_empresas_id_empresa s = id_empresa (empresa u)"
        by simp_all
      from q_almacen_single [OF qa] have ma: "a \<in> set (almacenes d)"
        "id_almacen a = i" "a_empresas_id_empresa a = id_empresa (empresa u)"
        by simp_all
      from owner_mem_sucursal [OF ms(1)] owner_mem_almacen [OF ma(1)] ms(2,3) ma(2,3)
      have "link_in_company (id_empresa (empresa u)) d' ?l"
        by (simp add: link_in_company_def d')
      moreover from assms Pair d' have "l \<in> set (sucursales_almacenes d) \<or> l = ?l" by auto
      ultimately show ?thesis using Pair by auto
    qed
  qed
qed

lemma links_step:
  assumes "l \<in> set (sucursales_almacenes (step r d))"
  shows "l \<in> set (sucursales_almacenes d)
         \<or> link_in_company (id_empresa (empresa (caller r))) (step r d) l"
proof (cases r)
  case (CreateAlmacen n t p u)
  with assms links_create_almacen [of l n t p u d] show ?thesis by simp
next
  case (LinkSucursalToAlmacen i p u)
  with assms links_link [of l i p u d] show ?thesis by simp
next
  case (UnlinkSucursalFromAlmacen i j u)
  with assms links_unlink [of l i j u d] show ?thesis by simp
qed (use assms in simp_all)

lemma owner_update_sucursal_row:
  assumes "distinct (map id_sucursal (sucursales d))" and "s \<in> set (sucursales d)"
    and "id_sucursal s' = id_sucursal s" and "s_empresas_id_empresa s' = s_empresas_id_empresa s"
  shows "map sucursal_owner (sucursales (update_sucursal_row s' d))
           = map sucursal_owner (sucursales d)"
proof -
  have "sucursales (update_sucursal_row s' d)
          = map (\<lambda>x. if x = s then s' else x) (sucursales d)"
    using map_replace_by_key [OF assms(1,2), of s'] by (simp add: update_sucursal_row_def assms(3))
  moreover have "map sucursal_owner (map (\<lambda>x. if x = s then s' else x) (sucursales d))
          = map sucursal_owner (sucursales d)"
    using assms(3,4) by (simp add: sucursal_owner_def)
  ultimately show ?thesis by simp
qed

lemma owner_update_almacen_row:
  assumes "distinct (map id_almacen (almacenes d))" and "a \<in> set (almacenes d)"
    and "id_almacen a' = id_almacen a" and "a_empresas_id_empresa a' = a_empresas_id_empresa a"
  shows "map almacen_owner (almacenes (update_almacen_row a' d))
           = map almacen_owner (almacenes d)"
proof -
  have "almacenes (update_almacen_row a' d)
          = map (\<lambda>x. if x = a then a' else x) (almacenes d)"
    using map_replace_by_key [OF assms(1,2), of a'] by (simp add: update_almacen_row_def assms(3))
  moreover have "map almacen_owner (map (\<lambda>x. if x = a then a' else x) (almacenes d))
          = map almacen_owner (almacenes d)"
    using assms(3,4) by (simp add: almacen_owner_def)
  ultimately show ?thesis by simp
qed

lemma sucursal_owners_step:
  assumes "primary_keys d"
  shows "map sucursal_owner (sucursales (step r d)) = map sucursal_owner (sucursales d)
     \<or> (\<exists>n c. n \<notin> set (map id_sucursal (sucursales d))
           \<and> map sucursal_owner (sucursales (step r d))
               = map sucursal_owner (sucursales d) @ [(n, c)])"
proof -
  from assms have pk: "distinct (map id_sucursal (sucursales d))" by (simp add: primary_keys_def)
  show ?thesis
  proof (cases r)
    case (CreateSucursal n t p u)
    from sucursales_create_sucursal [of n t p u d] show ?thesis
      unfolding CreateSucursal step.simps by (auto simp: sucursal_owner_def)
  next
    case (UpdateSucursal j p u)
    from sucursales_update_sucursal [of j p u d] show ?thesis
    proof
      assume "sucursales (snd (update_sucursal j p u d)) = sucursales d"
      then show ?thesis by (simp add: UpdateSucursal)
    next
      assume "\<exists>s s'. s \<in> set (sucursales d) \<and> id_sucursal s' = id_sucursal s
         \<and> s_empresas_id_empresa s' = s_empresas_id_empresa s
         \<and> s_estado s' = setattr_required (su_estado p) (s_estado s)
         \<and> su_estado p \<noteq> Some None
         \<and> snd (update_sucursal j p u d) = update_sucursal_row s' d"
      then obtain s s' where m: "s \<in> set (sucursales d)" "id_sucursal s' = id_sucursal s"
        "s_empresas_id_empresa s' = s_empresas_id_empresa s"
        and d': "snd (update_sucursal j p u d) = update_sucursal_row s' d" by blast
      from owner_update_sucursal_row [OF pk m] show ?thesis by (simp add: UpdateSucursal d')
    qed
  next
    case (DeleteSucursal j u)
    from sucursales_delete_sucursal [of j u d] show ?thesis
    proof
      assume "snd (delete_sucursal j u d) = d"
      then show ?thesis by (simp add: DeleteSucursal)
    next
      assume "\<exists>s. s \<in> set (sucursales d)
         \<and> snd (delete_sucursal j u d) = update_sucursal_row (s\<lparr>s_estado := False\<rparr>) d"
      then obtain s where m: "s \<in> set (sucursales d)"
        and d': "snd (delete_sucursal j u d) = update_sucursal_row (s\<lparr>s_estado := False\<rparr>) d"
        by blast
      have "map sucursal_owner (sucursales (update_sucursal_row (s\<lparr>s_estado := False\<rparr>) d))
              = map sucursal_owner (sucursales d)"
        by (rule owner_update_sucursal_row [OF pk m]) simp_all
      then show ?thesis by (simp add: DeleteSucursal d')
    qed
  qed simp_all
qed

lemma almacen_owners_step:
  assumes "primary_keys d"
  shows "map almacen_owner (almacenes (step r d)) = map almacen_owner (almacenes d)
     \<or> (\<exists>n c. n \<notin> set (map id_almacen (almacenes d))
           \<and> map almacen_owner (almacenes (step r d))
               = map almacen_owner (almacenes d) @ [(n, c)])"
proof -
  from assms have pk: "distinct (map id_almacen (almacenes d))" by (simp add: primary_keys_def)
  show ?thesis
  proof (cases r)
    case (CreateAlmacen n t p u)
    from almacenes_create_almacen [of n t p u d] show ?thesis
      unfolding CreateAlmacen step.simps by (auto simp: almacen_owner_def)
  next
    case (UpdateAlmacen j p u)
    from almacenes_update_almacen [of j p u d] show ?thesis
    proof
      assume "almacenes (snd (update_almacen j p u d)) = almacenes d"
      then show ?thesis by (simp add: UpdateAlmacen)
    next
      assume "\<exists>a a'. a \<in> set (almacenes d) \<and> id_almacen a' = id_almacen a
         \<and> a_empresas_id_empresa a' = a_empresas_id_empresa a
         \<and> a_estado a' = setattr_required (au_estado p) (a_estado a)
         \<and> au_estado p \<noteq> Some None
         \<and> snd (update_almacen j p u d) = update_almacen_row a' d"
      then obtain a a' where m: "a \<in> set (almacenes d)" "id_almacen a' = id_almacen a"
        "a_empresas_id_empresa a' = a_empresas_id_empresa a"
        and d': "snd (update_almacen j p u d) = update_almacen_row a' d" by blast
      from owner_update_almacen_row [OF pk m] show ?thesis by (simp add: UpdateAlmacen d')
    qed
  next
    case (DeleteAlmacen j u)
    from almacenes_delete_almacen [of j u d] show ?thesis
    proof
      assume "snd (delete_almacen j u d) = d"
      then show ?thesis by (simp add: DeleteAlmacen)
    next
      assume "\<exists>a. a \<in> set (almacenes d)
         \<and> snd (delete_almacen j u d) = update_almacen_row (a\<lparr>a_estado := False\<rparr>) d"
      then obtain a where m: "a \<in> set (almacenes d)"
        and d': "snd (delete_almacen j u d) = update_almacen_row (a\<lparr>a_estado := False\<rparr>) d"
        by blast
      have "map almacen_owner (almacenes (update_almacen_row (a\<lparr>a_estado := False\<rparr>) d))
              = map almacen_owner (almacenes d)"
        by (rule owner_update_almacen_row [OF pk m]) simp_all
      then show ?thesis by (simp add: DeleteAlmacen d')
    qed
  qed simp_all
qed

lemma ids_of_sucursal_owners:
  "map sucursal_owner xs = ys \<Longrightarrow> map id_sucursal xs = map fst ys"
  by (auto simp: sucursal_owner_def)

lemma ids_of_almacen_owners:
  "map almacen_owner xs = ys \<Longrightarrow> map id_almacen xs = map fst ys"
  by (auto simp: almacen_owner_def)

lemma primary_keys_step:
  assumes "primary_keys d"
  shows "primary_keys (step r d)"
proof -
  from assms have pk: "distinct (map id_sucursal (sucursales d))"
    "distinct (map id_almacen (almacenes d))" by (simp_all add: primary_keys_def)
  have s0: "map fst (map sucursal_owner (sucursales d)) = map id_sucursal (sucursales d)"
    by (rule ids_of_sucursal_owners [OF refl, symmetric])
  have a0: "map fst (map almacen_owner (almacenes d)) = map id_almacen (almacenes d)"
    by (rule ids_of_almacen_owners [OF refl, symmetric])
  from sucursal_owners_step [OF assms, of r]
  have "distinct (map id_sucursal (sucursales (step r d)))"
  proof (elim disjE exE conjE)
    assume "map sucursal_owner (sucursales (step r d)) = map sucursal_owner (sucursales d)"
    from ids_of_sucursal_owners [OF this] pk(1) show ?thesis by (simp only: s0)
  next
    fix n c
    assume "n \<notin> set (map id_sucursal (sucursales d))"
      and "map sucursal_owner (sucursales (step r d))
             = map sucursal_owner (sucursales d) @ [(n, c)]"
    from ids_of_sucursal_owners [OF this(2)] this(1) pk(1) show ?thesis
      by (simp only: map_append s0) simp
  qed
  moreover from almacen_owners_step [OF assms, of r]
  have "distinct (map id_almacen (almacenes (step r d)))"
  proof (elim disjE exE conjE)
    assume "map almacen_owner (almacenes (step r d)) = map almacen_owner (almacenes d)"
    from ids_of_almacen_owners [OF this] pk(2) show ?thesis by (simp only: a0)
  next
    fix n c
    assume "n \<notin> set (map id_almacen (almacenes d))"
      and "map almacen_owner (almacenes (step r d))
             = map almacen_owner (almacenes d) @ [(n, c)]"
    from ids_of_almacen_owners [OF this(2)] this(1) pk(2) show ?thesis
      by (simp only: map_append a0) simp
  qed
  ultimately show ?thesis by (simp add: primary_keys_def)
qed

lemma owners_grow:
  assumes "primary_keys d"
  shows "set (map sucursal_owner (sucursales d))
           \<subseteq> set (map sucursal_owner (sucursales (step r d)))"
    and "set (map almacen_owner (almacenes d))
           \<subseteq> set (map almacen_owner (almacenes (step r d)))"
proof -
  from sucursal_owners_step [OF assms, of r]
  obtain ys where "map sucursal_owner (sucursales (step r d))
                     = map sucursal_owner (sucursales d) @ ys"
    by (elim disjE exE conjE) (rule that [of "[]"], simp, rule that, assumption)
  then have "set (map sucursal_owner (sucursales (step r d)))
               = set (map sucursal_owner (sucursales d)) \<union> set ys"
    by (simp only: set_append)
  then show "set (map sucursal_owner (sucursales d))
           \<subseteq> set (map sucursal_owner (sucursales (step r d)))" by blast
  from almacen_owners_step [OF assms, of r]
  obtain zs where "map almacen_owner (almacenes (step r d))
                     = map almacen_owner (almacenes d) @ zs"
    by (elim disjE exE conjE) (rule that [of "[]"], simp, rule that, assumption)
  then have "set (map almacen_owner (almacenes (step r d)))
               = set (map almacen_owner (almacenes d)) \<union> set zs"
    by (simp only: set_append)
  then show "set (map almacen_owner (almacenes d))
           \<subseteq> set (map almacen_owner (almacenes (step r d)))" by blast
qed

lemma link_in_company_step:
  assumes "primary_keys d" and "link_in_company c d l"
  shows "link_in_company c (step r d) l"
  using owners_grow [OF assms(1), of r] assms(2)
  unfolding link_in_company_def by blast

lemma sucursal_owner_mem_iff:
  "(i, c) \<in> set (map sucursal_owner xs)
   \<longleftrightarrow> (\<exists>s\<in>set xs. id_sucursal s = i \<and> s_empresas_id_empresa s = c)"
  by (induction xs) (auto simp: sucursal_owner_def)

lemma almacen_owner_mem_iff:
  "(i, c) \<in> set (map almacen_owner xs)
   \<longleftrightarrow> (\<exists>a\<in>set xs. id_almacen a = i \<and> a_empresas_id_empresa a = c)"
  by (induction xs) (auto simp: almacen_owner_def)

lemma link_in_company_iff:
  "link_in_company c d l \<longleftrightarrow>
     (\<exists>s\<in>set (sucursales d). \<exists>a\<in>set (almacenes d).
        id_sucursal s = sa_sucursales_id_sucursal l \<and> id_almacen a = sa_almacenes_id_almacen l
        \<and> s_empresas_id_empresa s = c \<and> a_empresas_id_empresa a = c)"
  unfolding link_in_company_def sucursal_owner_mem_iff almacen_owner_mem_iff by blast

lemma same_company_links_alt:
  "same_company_links d \<longleftrightarrow>
     primary_keys d \<and> (\<forall>l\<in>set (sucursales_almacenes d). \<exists>c. link_in_company c d l)"
  unfolding same_company_links_def link_in_company_iff by (rule conj_cong [OF refl]) metis

lemma same_company_links_step:
  assumes "same_company_links d"
  shows "same_company_links (step r d)"
proof -
  from assms have pk: "primary_keys d"
    and li: "\<forall>l\<in>set (sucursales_almacenes d). \<exists>c. link_in_company c d l"
    by (simp_all add: same_company_links_alt)
  have "\<exists>c. link_in_company c (step r d) l" if "l \<in> set (sucursales_almacenes (step r d))" for l
    using links_step [OF that] li link_in_company_step [OF pk] by blast
  with primary_keys_step [OF pk] show ?thesis by (simp add: same_company_links_alt)
qed

lemma same_company_links_run:
  "same_company_links d \<Longrightarrow> same_company_links (run rs d)"
  by (induction rs arbitrary: d) (simp_all add: same_company_links_step)

text \<open>
  Claim C8. Whatever the request, a link row that is stored after it and was not stored
  before joins a stored branch and a stored warehouse that both belong to the caller's
  company. In a store whose ids are unique every request keeps the ids unique and keeps
  every stored pair of id and company, for branches and for warehouses, so the company of
  an entity never changes. Hence the link invariant is preserved by every request and by
  every sequence of requests; it holds in the empty store.
\<close>

theorem same_company_link_invariant:
  "(\<forall>l\<in>set (sucursales_almacenes (step r d)).
       l \<notin> set (sucursales_almacenes d) \<longrightarrow>
       link_in_company (id_empresa (empresa (caller r))) (step r d) l)
   \<and> (primary_keys d \<longrightarrow>
         primary_keys (step r d)
         \<and> set (map sucursal_owner (sucursales d))
              \<subseteq> set (map sucursal_owner (sucursales (step r d)))
         \<and> set (map almacen_owner (almacenes d))
              \<subseteq> set (map almacen_owner (almacenes (step r d))))
   \<and> (same_company_links d \<longrightarrow>
         same_company_links (step r d) \<and> same_company_links (run rs d))
   \<and> same_company_links empty_db"
proof (intro conjI impI ballI)
  fix l
  assume "l \<in> set (sucursales_almacenes (step r d))" "l \<notin> set (sucursales_almacenes d)"
  with links_step [of l r d]
  show "link_in_company (id_empresa (empresa (caller r))) (step r d) l" by blast
next
  assume "primary_keys d"
  then show "primary_keys (step r d)" by (rule primary_keys_step)
next
  assume "primary_keys d"
  then show "set (map sucursal_owner (sucursales d))
              \<subseteq> set (map sucursal_owner (sucursales (step r d)))"
    by (rule owners_grow)
next
  assume "primary_keys d"
  then show "set (map almacen_owner (almacenes d))
              \<subseteq> set (map almacen_owner (almacenes (step r d)))"
    by (rule owners_grow)
next
  assume "same_company_links d"
  then show "same_company_links (step r d)" by (rule same_company_links_step)
next
  assume "same_company_links d"
  then show "same_company_links (run rs d)" by (rule same_company_links_run)
next
  show "same_company_links empty_db"
    by (simp add: same_company_links_def primary_keys_def empty_db_def)
qed

theorem same_company_link_invariant_witness:
  "same_company_links store0
   \<and> primary_keys store0
   \<and> sucursales_almacenes (step (CreateAlmacen 3 200 (new_warehouse 1) user1) store0)
        = sucursales_almacenes store0
            @ [\<lparr>sa_sucursales_id_sucursal = 1, sa_almacenes_id_almacen = 3\<rparr>]
   \<and> link_in_company 1 (step (CreateAlmacen 3 200 (new_warehouse 1) user1) store0)
        \<lparr>sa_sucursales_id_sucursal = 1, sa_almacenes_id_almacen = 3\<rparr>
   \<and> same_company_links (step (CreateAlmacen 3 200 (new_warehouse 1) user1) store0)
   \<and> same_company_links
        (run [CreateAlmacen 3 200 (new_warehouse 1) user1,
              LinkSucursalToAlmacen 3 \<lparr>sac_sucursal_id = 1\<rparr> user1,
              UnlinkSucursalFromAlmacen 1 1 user1,
              UpdateSucursal 1 (patch_sucursal_nombre ''Sede'') user1] store0)"
proof -
  let ?r = "CreateAlmacen 3 200 (new_warehouse 1) user1"
  let ?rs = "[CreateAlmacen 3 200 (new_warehouse 1) user1,
              LinkSucursalToAlmacen 3 \<lparr>sac_sucursal_id = 1\<rparr> user1,
              UnlinkSucursalFromAlmacen 1 1 user1,
              UpdateSucursal 1 (patch_sucursal_nombre ''Sede'') user1]"
  let ?l = "\<lparr>sa_sucursales_id_sucursal = 1, sa_almacenes_id_almacen = 3\<rparr>"
  have pk: "primary_keys store0" by (simp add: primary_keys_def store_defs)
  have inv: "same_company_links store0"
    by (simp add: same_company_links_def primary_keys_def store_defs)
  have ls: "sucursales_almacenes (step ?r store0) = sucursales_almacenes store0 @ [?l]"
    by (simp add: create_almacen_def handler_defs store_defs new_warehouse_def Let_def
        insert_almacen_def insert_sucursal_almacen_def)
  have new: "?l \<in> set (sucursales_almacenes (step ?r store0))"
    "?l \<notin> set (sucursales_almacenes store0)"
    by (simp_all only: ls) (simp_all add: store_defs)
  have c: "id_empresa (empresa (caller ?r)) = 1" by (simp add: user1_def)
  note T = same_company_link_invariant [of ?r store0 ?rs]
  from T [THEN conjunct1, THEN bspec, OF new(1), THEN mp, OF new(2)] c
  have lc: "link_in_company 1 (step ?r store0) ?l" by simp
  from T [THEN conjunct2, THEN conjunct2, THEN conjunct1, THEN mp, OF inv]
  have "same_company_links (step ?r store0)" "same_company_links (run ?rs store0)"
    by simp_all
  with inv pk ls lc show ?thesis by (intro conjI)
qed

section \<open>Assigning a user to a branch\<close>

text \<open>
  Claim C5 asks for a 400 and no assignment row when the branch of the path differs from
  the branch named in the body. The route is served by the first definition of
  \<open>assign_usuario_to_sucursal\<close>, which has no such test, and validation drops the
  body's branch: the request for branch 1 whose body names branch 2 is answered with the
  assignment of user 7 to branch 1, which is stored. The second definition, which holds
  the test, is not reached by the router, and raises on the payload the schema yields.
\<close>

theorem assign_usuario_path_body_mismatch:
  "map_of mismatched_body ''sucursales_id_sucursal'' = Some 2
   \<and> post_sucursales_usuarios 1 mismatched_body user1 store0
       = (Inr \<lparr>usr_usuarios_id_usuario = 7, usr_sucursales_id_sucursal = 1\<rparr>,
          store0\<lparr>usuarios_sucursales :=
                   [\<lparr>us_usuarios_id_usuario = 7, us_sucursales_id_sucursal = 1\<rparr>]\<rparr>)
   \<and> assign_usuario_to_sucursal_2 1 \<lparr>usc_usuario_id = 7\<rparr> user1 store0
       = (Inl AttributeError, store0)"
  by (simp add: mismatched_body_def post_sucursales_usuarios_def
      validate_UsuarioSucursalCreate_def assign_usuario_to_sucursal_def
      assign_usuario_to_sucursal_2_def getattr_UsuarioSucursalCreate_def
      insert_usuario_sucursal_def sql_user_def fetchone_def handler_defs store_defs)

end
